theory Spec2Isabelle
  imports Main "HOL-Library.Sublist"
begin

section \<open>Python strings\<close>

text \<open>
  A Python \<open>str\<close> is a sequence of Unicode code points: \<open>len\<close> counts code points
  and \<open>ord\<close> returns one. A string is therefore a list of naturals here, and a literal of
  the source is written \<open>str ''...''\<close>.
\<close>

type_synonym pystr = "nat list"

definition str :: "string \<Rightarrow> pystr" where
  "str s = map of_char s"

text \<open>\<open>sub in s\<close> for strings: \<open>sub\<close> occurs in \<open>s\<close> as a contiguous piece.\<close>

fun py_in :: "pystr \<Rightarrow> pystr \<Rightarrow> bool" where
  "py_in sub [] = (sub = [])"
| "py_in sub (c # cs) = (prefix sub (c # cs) \<or> py_in sub cs)"

text \<open>
  \<open>s.split(sep)\<close>: the pieces between the occurrences of \<open>sep\<close>, found from the left
  and not overlapping. \<open>cur\<close> holds the piece being read. The source only splits at
  constant, non-empty separators (Python raises ValueError at an empty one).
\<close>

fun split_from :: "pystr \<Rightarrow> pystr \<Rightarrow> pystr \<Rightarrow> pystr list" where
  "split_from sep cur [] = [cur]"
| "split_from sep cur (c # cs) =
     (if sep \<noteq> [] \<and> prefix sep (c # cs)
      then cur # split_from sep [] (drop (length sep) (c # cs))
      else split_from sep (cur @ [c]) cs)"

definition py_split :: "pystr \<Rightarrow> pystr \<Rightarrow> pystr list" where
  "py_split s sep = split_from sep [] s"

text \<open>\<open>s.replace(old, '')\<close>: every occurrence of \<open>old\<close>, found from the left, is dropped.\<close>

fun py_remove :: "pystr \<Rightarrow> pystr \<Rightarrow> pystr" where
  "py_remove old [] = []"
| "py_remove old (c # cs) =
     (if old \<noteq> [] \<and> prefix old (c # cs)
      then py_remove old (drop (length old) (c # cs))
      else c # py_remove old cs)"

text \<open>
  \<open>s.strip()\<close> drops the white space at both ends; white space is what \<open>str.isspace\<close>
  accepts.
\<close>

definition isspace :: "nat \<Rightarrow> bool" where
  "isspace c \<longleftrightarrow>
     (9 \<le> c \<and> c \<le> 13) \<or> (28 \<le> c \<and> c \<le> 32) \<or> c = 133 \<or> c = 160 \<or> c = 5760
     \<or> (8192 \<le> c \<and> c \<le> 8202) \<or> c = 8232 \<or> c = 8233 \<or> c = 8239 \<or> c = 8287
     \<or> c = 12288"

definition strip :: "pystr \<Rightarrow> pystr" where
  "strip s = rev (dropWhile isspace (rev (dropWhile isspace s)))"

text \<open>
  \<open>s.lower()\<close> replaces every character by its lower-case form. The letters A to Z and
  the capital letters of Latin-1 (U+00C0 to U+00DE without the multiplication sign) move up
  by 32. Outside Latin-1 exactly two code points have a lower-case form with an ASCII
  character in it: U+0130 (capital I with dot above) becomes \<open>i\<close> followed by U+0307,
  and U+212A (the Kelvin sign) becomes \<open>k\<close>. Every other code point from U+0100 on is
  left as it is here; where Python changes it, the result has no ASCII character. The
  source only asks whether an ASCII keyword occurs in \<open>s.lower()\<close>, and that has the
  same answer here as in Python, for every string.
\<close>

definition lower_cp :: "nat \<Rightarrow> nat list" where
  "lower_cp c =
     (if (65 \<le> c \<and> c \<le> 90) \<or> (192 \<le> c \<and> c \<le> 222 \<and> c \<noteq> 215) then [c + 32]
      else if c = 304 then [105, 775]
      else if c = 8490 then [107]
      else [c])"

definition lower :: "pystr \<Rightarrow> pystr" where
  "lower s = concat (map lower_cp s)"

section \<open>Python values\<close>

text \<open>
  The values that \<open>json.loads\<close> produces and that the functions below build and return.
  A dictionary is an association list in insertion order; a float is kept as its literal.
\<close>

datatype pyval =
    PNone
  | PBool bool
  | PInt int
  | PFloat pystr
  | PStr pystr
  | PList "pyval list"
  | PDict "(pystr \<times> pyval) list"

text \<open>The dictionary \<open>{"title": t, "artist": a}\<close>.\<close>

definition song :: "pystr \<Rightarrow> pystr \<Rightarrow> pyval" where
  "song t a = PDict [(str ''title'', PStr t), (str ''artist'', PStr a)]"

text \<open>The dictionary \<open>{'captions': ..., 'songs': ...}\<close> that every generator returns.\<close>

record result =
  captions :: pyval
  songs :: "pyval list"

section \<open>The mock generator\<close>

definition base_captions :: "pystr list" where
  "base_captions =
     [str ''Stolen moments under golden skies'',
      str ''When the world felt like a soft melody'',
      str ''Sunlit streets and quiet thoughts'',
      str ''Lost in the little things'',
      str ''Weekend chapters written in sunlight'',
      str ''Chasing light and finding magic'',
      str ''Simple moments, infinite beauty'']"

definition bollywood_songs :: "pyval list" where
  "bollywood_songs =
     [song (str ''Tum Hi Ho'') (str ''Arijit Singh''),
      song (str ''Raabta'') (str ''Arijit Singh''),
      song (str ''Channa Mereya'') (str ''Arijit Singh''),
      song (str ''Tera Ban Jaunga'') (str ''Tulsi Kumar & Akhil Sachdeva''),
      song (str ''Kesariya'') (str ''Arijit Singh''),
      song (str ''Phir Bhi Tumko Chaahunga'') (str ''Arijit Singh''),
      song (str ''Dil Diyan Gallan'') (str ''Atif Aslam'')]"

definition hollywood_songs :: "pyval list" where
  "hollywood_songs =
     [song (str ''Golden Hour'') (str ''Joji''),
      song (str ''Sunflower'') (str ''Post Malone''),
      song (str ''Levitating'') (str ''Dua Lipa''),
      song (str ''Blinding Lights'') (str ''The Weeknd''),
      song (str ''Watermelon Sugar'') (str ''Harry Styles''),
      song (str ''Good 4 U'') (str ''Olivia Rodrigo''),
      song (str ''Stay'') (str ''The Kid LAROI & Justin Bieber'')]"

definition tollywood_songs :: "pyval list" where
  "tollywood_songs =
     [song (str ''Ala Vaikunthapurramuloo'') (str ''Armaan Malik''),
      song (str ''Inkem Inkem'') (str ''Sid Sriram''),
      song (str ''Samajavaragamana'') (str ''Sid Sriram''),
      song (str ''Vachinde'') (str ''Madhu Priya''),
      song (str ''Rangamma Mangamma'') (str ''MM Manasi''),
      song (str ''Buttabomma'') (str ''Armaan Malik''),
      song (str ''Ramuloo Ramulaa'') (str ''Anurag Kulkarni'')]"

definition kpop_songs :: "pyval list" where
  "kpop_songs =
     [song (str ''Dynamite'') (str ''BTS''),
      song (str ''Butter'') (str ''BTS''),
      song (str ''How You Like That'') (str ''BLACKPINK''),
      song (str ''Gangnam Style'') (str ''PSY''),
      song (str ''Next Level'') (str ''aespa''),
      song (str ''Savage'') (str ''aespa''),
      song (str ''LALISA'') (str ''LISA'')]"

text \<open>The pool that the \<open>if\<close>/\<open>elif\<close> chain on \<open>prompt.lower()\<close> selects.\<close>

definition base_songs :: "pystr \<Rightarrow> pyval list" where
  "base_songs prompt =
     (if py_in (str ''bollywood'') (lower prompt) then bollywood_songs
      else if py_in (str ''tollywood'') (lower prompt) then tollywood_songs
      else if py_in (str ''kpop'') (lower prompt) \<or> py_in (str ''k-pop'') (lower prompt)
        then kpop_songs
      else if py_in (str ''hollywood'') (lower prompt) then hollywood_songs
      else hollywood_songs)"

text \<open>\<open>sum(ord(c) for c in prompt) % len(base_captions) if prompt else 0\<close>\<close>

definition seed :: "pystr \<Rightarrow> nat" where
  "seed prompt = (if prompt \<noteq> [] then sum_list prompt mod length base_captions else 0)"

text \<open>
  One round of the loop \<open>for i in range(max_outputs)\<close>: a caption and a song are
  appended. Both indices are reduced modulo the length of a pool of seven entries, so
  they are in range.
\<close>

definition mock_step :: "pystr \<Rightarrow> pystr list \<times> pyval list \<Rightarrow> nat \<Rightarrow> pystr list \<times> pyval list" where
  "mock_step prompt acc i =
     (fst acc @ [base_captions ! ((seed prompt + i) mod length base_captions)],
      snd acc @ [base_songs prompt ! ((seed prompt + i) mod length (base_songs prompt))])"

text \<open>\<open>range(max_outputs)\<close> is empty for a count below one.\<close>

definition get_mock_response :: "pystr \<Rightarrow> int \<Rightarrow> result" where
  "get_mock_response prompt max_outputs =
     (let acc = foldl (mock_step prompt) ([], []) [0 ..< nat max_outputs]
      in \<lparr>captions = PList (map PStr (fst acc)), songs = snd acc\<rparr>)"

section \<open>Exceptions and dynamically typed operations\<close>

text \<open>
  An exception is a value: a function that can raise returns \<open>exn + 'a\<close>, with \<open>Inl\<close>
  for the exception. \<open>OtherError\<close> stands for every exception of the external
  libraries (network, quota, image decoding, recursion depth); all of them derive from
  \<open>Exception\<close>.
\<close>

datatype exn = JSONDecodeError | TypeError | KeyError | IndexError | ZeroDivisionError | ValueError
  | OtherError

definition bind_exn :: "exn + 'a \<Rightarrow> ('a \<Rightarrow> exn + 'b) \<Rightarrow> exn + 'b" where
  "bind_exn m f = (case m of Inl e \<Rightarrow> Inl e | Inr x \<Rightarrow> f x)"

text \<open>\<open>xs[i]\<close> for an index that is not negative.\<close>

definition py_index :: "'a list \<Rightarrow> nat \<Rightarrow> exn + 'a" where
  "py_index xs i = (if i < length xs then Inr (xs ! i) else Inl IndexError)"

text \<open>\<open>xs[a:b]\<close>: a negative bound counts from the end, and both are cut to the list.\<close>

definition slice_bound :: "nat \<Rightarrow> int \<Rightarrow> nat" where
  "slice_bound n i = (if i < 0 then nat (max 0 (i + int n)) else min (nat i) n)"

definition py_slice :: "'a list \<Rightarrow> int \<Rightarrow> int \<Rightarrow> 'a list" where
  "py_slice xs a b =
     (let a' = slice_bound (length xs) a; b' = slice_bound (length xs) b
      in take (b' - a') (drop a' xs))"

text \<open>\<open>s.find(c)\<close> and \<open>s.rfind(c)\<close> for one character: an index, or -1.\<close>

fun py_find :: "pystr \<Rightarrow> nat \<Rightarrow> int" where
  "py_find [] c = - 1"
| "py_find (x # xs) c =
     (if x = c then 0 else (let r = py_find xs c in if r = - 1 then - 1 else r + 1))"

definition py_rfind :: "pystr \<Rightarrow> nat \<Rightarrow> int" where
  "py_rfind s c =
     (let r = py_find (rev s) c in if r = - 1 then - 1 else int (length s) - 1 - r)"

text \<open>\<open>len(v)\<close>\<close>

fun py_len :: "pyval \<Rightarrow> exn + nat" where
  "py_len (PStr s) = Inr (length s)"
| "py_len (PList xs) = Inr (length xs)"
| "py_len (PDict kvs) = Inr (length kvs)"
| "py_len _ = Inl TypeError"

text \<open>\<open>v[i]\<close> for an integer \<open>i\<close> that is not negative; the keys of a dictionary are strings.\<close>

fun py_item :: "pyval \<Rightarrow> nat \<Rightarrow> exn + pyval" where
  "py_item (PList xs) i = py_index xs i"
| "py_item (PStr s) i = (if i < length s then Inr (PStr [s ! i]) else Inl IndexError)"
| "py_item (PDict kvs) i = Inl KeyError"
| "py_item _ i = Inl TypeError"

text \<open>\<open>k in v\<close> for a string \<open>k\<close>.\<close>

fun py_contains :: "pystr \<Rightarrow> pyval \<Rightarrow> exn + bool" where
  "py_contains k (PDict kvs) = Inr (k \<in> set (map fst kvs))"
| "py_contains k (PList xs) = Inr (PStr k \<in> set xs)"
| "py_contains k (PStr s) = Inr (py_in k s)"
| "py_contains k _ = Inl TypeError"

text \<open>\<open>v[k]\<close> for a string \<open>k\<close>.\<close>

fun py_getkey :: "pyval \<Rightarrow> pystr \<Rightarrow> exn + pyval" where
  "py_getkey (PDict kvs) k = (case map_of kvs k of None \<Rightarrow> Inl KeyError | Some v \<Rightarrow> Inr v)"
| "py_getkey _ k = Inl TypeError"

text \<open>
  \<open>v[:n]\<close>. Slicing a dictionary raises (TypeError, and KeyError from Python 3.12 on).
\<close>

fun py_upto :: "pyval \<Rightarrow> int \<Rightarrow> exn + pyval" where
  "py_upto (PList xs) n = Inr (PList (py_slice xs 0 n))"
| "py_upto (PStr s) n = Inr (PStr (py_slice s 0 n))"
| "py_upto _ n = Inl TypeError"

text \<open>The items that \<open>for x in v\<close> visits.\<close>

fun py_iter :: "pyval \<Rightarrow> exn + pyval list" where
  "py_iter (PList xs) = Inr xs"
| "py_iter (PStr s) = Inr (map (\<lambda>c. PStr [c]) s)"
| "py_iter (PDict kvs) = Inr (map (\<lambda>kv. PStr (fst kv)) kvs)"
| "py_iter _ = Inl TypeError"

section \<open>Line-based recovery\<close>

datatype sect = NoSection | CaptionsSection | SongsSection

text \<open>The three variables that the loop over the lines updates.\<close>

record scan =
  caps :: "pyval list"
  sngs :: "pyval list"
  current_section :: sect

text \<open>
  \<open>line.replace('*', '').replace('-', '').replace(b, '').strip()\<close>, where \<open>b\<close> is the
  three characters U+00E2 U+20AC U+00A2 of the source.
\<close>

definition cleanup :: "pystr \<Rightarrow> pystr" where
  "cleanup line =
     strip (py_remove [226, 8364, 162] (py_remove (str ''-'') (py_remove (str ''*'') line)))"

text \<open>
  \<open>parts = song_line.split(sep)\<close> and the song of \<open>parts[0].strip()\<close> and
  \<open>parts[1].strip()\<close>.
\<close>

definition split_song :: "pystr \<Rightarrow> pystr \<Rightarrow> exn + pyval" where
  "split_song song_line sep =
     (let parts = py_split song_line sep
      in bind_exn (py_index parts 0) (\<lambda>t.
         bind_exn (py_index parts 1) (\<lambda>a. Inr (song (strip t) (strip a)))))"

text \<open>The body of \<open>for line in lines\<close>.\<close>

definition scan_line :: "int \<Rightarrow> scan \<Rightarrow> pystr \<Rightarrow> exn + scan" where
  "scan_line max_outputs st raw =
     (let line = strip raw in
      if line = [] then Inr st
      else if py_in (str ''caption'') (lower line) \<and> length (caps st) = 0
        then Inr (st\<lparr>current_section := CaptionsSection\<rparr>)
      else if py_in (str ''song'') (lower line) \<and> length (sngs st) = 0
        then Inr (st\<lparr>current_section := SongsSection\<rparr>)
      else if current_section st = CaptionsSection \<and> int (length (caps st)) < max_outputs
        then (let caption = cleanup line in
              if caption \<noteq> [] \<and> length caption > 5
              then Inr (st\<lparr>caps := caps st @ [PStr caption]\<rparr>)
              else Inr st)
      else if current_section st = SongsSection \<and> int (length (sngs st)) < max_outputs
        then (let song_line = cleanup line in
              if py_in (str '' by '') song_line
              then bind_exn (split_song song_line (str '' by ''))
                     (\<lambda>s. Inr (st\<lparr>sngs := sngs st @ [s]\<rparr>))
              else if py_in (str '' - '') song_line
              then bind_exn (split_song song_line (str '' - ''))
                     (\<lambda>s. Inr (st\<lparr>sngs := sngs st @ [s]\<rparr>))
              else if song_line \<noteq> [] \<and> length song_line > 3
              then Inr (st\<lparr>sngs := sngs st @ [song song_line (str ''Unknown Artist'')]\<rparr>)
              else Inr st)
      else Inr st)"

fun scan_lines :: "int \<Rightarrow> scan \<Rightarrow> pystr list \<Rightarrow> exn + scan" where
  "scan_lines max_outputs st [] = Inr st"
| "scan_lines max_outputs st (l # ls) =
     (case scan_line max_outputs st l of
        Inl e \<Rightarrow> Inl e
      | Inr st' \<Rightarrow> scan_lines max_outputs st' ls)"

text \<open>
  \<open>while len(xs) < max_outputs: xs.append(mock[len(xs) % len(mock)])\<close>; the remainder
  raises ZeroDivisionError at an empty \<open>mock\<close>.
\<close>

function pad :: "pyval list \<Rightarrow> pyval \<Rightarrow> int \<Rightarrow> exn + pyval list" where
  "pad xs mock max_outputs =
     (if int (length xs) < max_outputs
      then (case py_len mock of
              Inl e \<Rightarrow> Inl e
            | Inr m \<Rightarrow>
                if m = 0 then Inl ZeroDivisionError
                else (case py_item mock (length xs mod m) of
                        Inl e \<Rightarrow> Inl e
                      | Inr x \<Rightarrow> pad (xs @ [x]) mock max_outputs))
      else Inr xs)"
  by pat_completeness auto
termination
  by (relation "measure (\<lambda>(xs, mock, n). nat (n - int (length xs)))") auto

declare pad.simps [simp del]

definition parse_gemini_response :: "pystr \<Rightarrow> int \<Rightarrow> exn + result" where
  "parse_gemini_response response_text max_outputs =
     bind_exn
       (scan_lines max_outputs \<lparr>caps = [], sngs = [], current_section = NoSection\<rparr>
          (py_split response_text (str ''\<newline>'')))
       (\<lambda>st.
          bind_exn
            (if int (length (caps st)) < max_outputs \<or> int (length (sngs st)) < max_outputs
             then (let mock_data = get_mock_response [] max_outputs in
                   bind_exn (pad (caps st) (captions mock_data) max_outputs) (\<lambda>cs.
                   bind_exn (pad (sngs st) (PList (songs mock_data)) max_outputs) (\<lambda>ss.
                   Inr (cs, ss))))
             else Inr (caps st, sngs st))
            (\<lambda>(cs, ss).
               Inr \<lparr>captions = PList (py_slice cs 0 max_outputs),
                    songs = py_slice ss 0 max_outputs\<rparr>))"

section \<open>The generation adapter\<close>

text \<open>
  What the adapter reads from outside the program. \<open>GEMINI_API_KEY\<close> is the
  environment variable (\<open>None\<close> when it is not set). \<open>upstream prompt image_bytes
  max_outputs\<close> is the outcome of opening the image, sending it with the enhanced prompt
  to the model and reading \<open>response.text\<close>: the text, or the exception raised on the
  way. \<open>loads\<close> is \<open>json.loads\<close> and \<open>int_of\<close> is the built-in \<open>int\<close> on
  strings; both are library code and are taken as they come.
\<close>

record env =
  GEMINI_API_KEY :: "pystr option"
  upstream :: "pystr \<Rightarrow> nat list \<Rightarrow> int \<Rightarrow> exn + pystr"
  loads :: "pystr \<Rightarrow> exn + pyval"
  int_of :: "pystr \<Rightarrow> exn + int"

text \<open>
  One round of \<open>for song in songs\<close>: the entries that the round appends to
  \<open>formatted_songs\<close>. An entry that is neither a dictionary with both keys nor a string
  is skipped.
\<close>

fun format_song :: "pyval \<Rightarrow> pyval list" where
  "format_song (PDict kvs) =
     (if str ''title'' \<in> set (map fst kvs) \<and> str ''artist'' \<in> set (map fst kvs)
      then [PDict kvs] else [])"
| "format_song (PStr s) =
     (let parts = py_split s (str '' - '') in
      if length parts \<ge> 2
      then [song (strip (parts ! 0)) (strip (parts ! 1))]
      else [song (strip s) (str ''Unknown Artist'')])"
| "format_song _ = []"

text \<open>
  The inner \<open>try\<close> block without its handler: \<open>Inr (Some r)\<close> when it returns \<open>r\<close>,
  \<open>Inr None\<close> when control leaves it at its end, \<open>Inl e\<close> when it raises \<open>e\<close>.
\<close>

definition extract_json :: "(pystr \<Rightarrow> exn + pyval) \<Rightarrow> pystr \<Rightarrow> int \<Rightarrow> exn + result option" where
  "extract_json ld response_text max_outputs =
     (let start_idx = py_find response_text (of_char CHR ''{'');
          end_idx = py_rfind response_text (of_char CHR ''}'') + 1
      in if start_idx \<noteq> - 1 \<and> end_idx \<noteq> 0
         then bind_exn (ld (py_slice response_text start_idx end_idx)) (\<lambda>res.
              bind_exn (py_contains (str ''captions'') res) (\<lambda>has_captions.
              bind_exn (if has_captions then py_contains (str ''songs'') res else Inr False)
                (\<lambda>has_both.
                  if has_both
                  then bind_exn (py_getkey res (str ''captions'')) (\<lambda>cv.
                       bind_exn (py_upto cv max_outputs) (\<lambda>cs.
                       bind_exn (py_getkey res (str ''songs'')) (\<lambda>sv.
                       bind_exn (py_upto sv max_outputs) (\<lambda>ss.
                       bind_exn (py_iter ss) (\<lambda>entries.
                       Inr (Some \<lparr>captions = cs,
                                  songs = concat (map format_song entries)\<rparr>))))))
                  else Inr None)))
         else Inr None)"

text \<open>
  The outer \<open>try\<close> block without its handler. The inner handler lets a
  \<open>JSONDecodeError\<close> pass, and line-based recovery follows.
\<close>

definition call_model :: "env \<Rightarrow> pystr \<Rightarrow> nat list \<Rightarrow> int \<Rightarrow> exn + result" where
  "call_model e prompt image_bytes max_outputs =
     bind_exn (upstream e prompt image_bytes max_outputs) (\<lambda>text.
       let response_text = strip text in
       case extract_json (loads e) response_text max_outputs of
         Inr (Some r) \<Rightarrow> Inr r
       | Inr None \<Rightarrow> parse_gemini_response response_text max_outputs
       | Inl JSONDecodeError \<Rightarrow> parse_gemini_response response_text max_outputs
       | Inl x \<Rightarrow> Inl x)"

text \<open>\<open>not GEMINI_API_KEY\<close> holds for \<open>None\<close> and for the empty string.\<close>

definition call_gemini :: "env \<Rightarrow> pystr \<Rightarrow> nat list \<Rightarrow> int \<Rightarrow> exn + result" where
  "call_gemini e prompt image_bytes max_outputs =
     (if GEMINI_API_KEY e = None \<or> GEMINI_API_KEY e = Some []
      then Inr (get_mock_response prompt max_outputs)
      else (case call_model e prompt image_bytes max_outputs of
              Inl x \<Rightarrow> Inr (get_mock_response prompt max_outputs)
            | Inr r \<Rightarrow> Inr r))"

section \<open>The route\<close>

text \<open>
  The parts of a request that the route reads. \<open>image\<close> is \<open>None\<close> when no file
  arrives; otherwise it holds the lower-cased extension of the secured file name and the
  bytes of the file. A form field is \<open>None\<close> when it is missing.
\<close>

record request =
  image :: "(pystr \<times> nat list) option"
  form_length :: "pystr option"
  form_tone :: "pystr option"
  form_region :: "pystr option"
  form_mood :: "pystr option"
  form_num :: "pystr option"

datatype response =
    Ok pyval pyval
  | BadRequest pystr
  | ServerError exn

definition UPLOAD_EXTENSIONS :: "pystr list" where
  "UPLOAD_EXTENSIONS = [str ''.jpg'', str ''.jpeg'', str ''.png'']"

text \<open>\<open>request.form.get(name, default)\<close>\<close>

definition form_get :: "pystr option \<Rightarrow> pystr \<Rightarrow> pystr" where
  "form_get field dflt = (case field of None \<Rightarrow> dflt | Some v \<Rightarrow> v)"

text \<open>
  \<open>try: num = int(request.form.get('num','3')); num = max(1, min(6, num))\<close> with
  \<open>except: num = 3\<close>.
\<close>

definition read_num :: "env \<Rightarrow> pystr option \<Rightarrow> int" where
  "read_num e field =
     (case int_of e (form_get field (str ''3'')) of
        Inl x \<Rightarrow> 3
      | Inr num \<Rightarrow> max 1 (min 6 num))"

text \<open>\<open>str(n)\<close> for an integer.\<close>

fun digits :: "nat \<Rightarrow> pystr" where
  "digits n = (if n < 10 then [48 + n] else digits (n div 10) @ [48 + n mod 10])"

definition str_of_int :: "int \<Rightarrow> pystr" where
  "str_of_int i = (if i < 0 then 45 # digits (nat (- i)) else digits (nat i))"

definition build_prompt :: "int \<Rightarrow> pystr \<Rightarrow> pystr \<Rightarrow> pystr \<Rightarrow> pystr \<Rightarrow> pystr" where
  "build_prompt num length_opt tone region mood =
     str ''You are a social-media assistant. I will provide a photo. Generate ''
      @ str_of_int num
      @ str '' caption suggestions and ''
      @ str_of_int num
      @ str '' song suggestions.\<newline>''
      @ str ''\<newline>''
      @ str ''CRITICAL REQUIREMENTS:\<newline>''
      @ str ''- Caption length: ''
      @ length_opt
      @ str ''\<newline>''
      @ str ''- Tone: ''
      @ tone
      @ str '' \<newline>''
      @ str ''- Song region: ''
      @ region
      @ str '' (THIS IS MANDATORY - only suggest songs from this region)\<newline>''
      @ str ''- Song mood: ''
      @ mood
      @ str ''\<newline>''
      @ str ''\<newline>''
      @ str ''For song region ''
      @ [39]
      @ region
      @ [39]
      @ str '':\<newline>''
      @ str ''- bollywood: Only Hindi/Bollywood songs (Arijit Singh, Shreya Ghoshal, A.R. Rahman, etc.)\<newline>''
      @ str ''- hollywood: Only English/Western pop songs\<newline>''
      @ str ''- tollywood: Only Telugu cinema songs\<newline>''
      @ str ''- kpop: Only Korean pop songs\<newline>''
      @ str ''- any: Mix from different regions\<newline>''
      @ str ''\<newline>''
      @ str ''Provide captions as single lines and songs with title and artist.''"

definition generate :: "env \<Rightarrow> request \<Rightarrow> response" where
  "generate e req =
     (case image req of
        None \<Rightarrow> BadRequest (str ''No image uploaded'')
      | Some (ext, img_bytes) \<Rightarrow>
          if ext \<notin> set UPLOAD_EXTENSIONS then BadRequest (str ''Unsupported file type'')
          else
            (let length_opt = form_get (form_length req) (str ''medium'');
                 tone = form_get (form_tone req) (str ''aesthetic'');
                 region = form_get (form_region req) (str ''any'');
                 mood = form_get (form_mood req) (str ''chill'');
                 num = read_num e (form_num req);
                 prompt = build_prompt num length_opt tone region mood
             in case call_gemini e prompt img_bytes num of
                  Inl x \<Rightarrow> ServerError x
                | Inr r \<Rightarrow>
                    (case py_upto (captions r) num of
                       Inl x \<Rightarrow> ServerError x
                     | Inr cs \<Rightarrow> Ok cs (PList (py_slice (songs r) 0 num)))))"

section \<open>Properties of results\<close>

text \<open>A song entry is a dictionary that has the keys \<open>title\<close> and \<open>artist\<close>.\<close>

definition has_title_artist :: "pyval \<Rightarrow> bool" where
  "has_title_artist v =
     (case v of
        PDict kvs \<Rightarrow> str ''title'' \<in> set (map fst kvs) \<and> str ''artist'' \<in> set (map fst kvs)
      | _ \<Rightarrow> False)"

text \<open>
  What the loop over the lines keeps: no list grows beyond the count, and every collected
  song has both keys.
\<close>

definition scan_inv :: "int \<Rightarrow> scan \<Rightarrow> bool" where
  "scan_inv n st \<longleftrightarrow>
     int (length (caps st)) \<le> max 0 n \<and> int (length (sngs st)) \<le> max 0 n
     \<and> list_all has_title_artist (sngs st)"

section \<open>Example inputs\<close>

text \<open>
  \<open>int\<close> on a string of ASCII decimal digits with an optional sign and surrounding
  white space; everything else is a ValueError here.
\<close>

definition int_ascii :: "pystr \<Rightarrow> exn + int" where
  "int_ascii s =
     (let t = strip s;
          neg = (t \<noteq> [] \<and> hd t = 45);
          ds = (if t \<noteq> [] \<and> (hd t = 45 \<or> hd t = 43) then tl t else t)
      in if ds \<noteq> [] \<and> list_all (\<lambda>d. 48 \<le> d \<and> d \<le> 57) ds
         then Inr ((if neg then - 1 else 1) * foldl (\<lambda>a d. 10 * a + int (d - 48)) 0 ds)
         else Inl ValueError)"

text \<open>
  The 69 bytes of a PNG file of one red pixel: the signature, the header chunk (1 by 1,
  8 bits, RGB), one data chunk and the end chunk, each with its checksum.
\<close>

definition tiny_png :: "nat list" where
  "tiny_png =
     [137, 80, 78, 71, 13, 10, 26, 10,
      0, 0, 0, 13, 73, 72, 68, 82, 0, 0, 0, 1, 0, 0, 0, 1, 8, 2, 0, 0, 0, 144, 119, 83, 222,
      0, 0, 0, 12, 73, 68, 65, 84, 120, 156, 99, 248, 207, 192, 0, 0, 3, 1, 1, 0,
      201, 254, 146, 239,
      0, 0, 0, 0, 73, 69, 78, 68, 174, 66, 96, 130]"

text \<open>
  A configured adapter whose model answers \<open>text\<close> to the image \<open>tiny_png\<close>, with
  \<open>json.loads\<close> given at the one string \<open>js\<close> that the adapter passes to it. The
  examples call it with \<open>tiny_png\<close> and with the empty byte string, which is not an
  image: opening it raises.
\<close>

definition reply_env :: "pystr \<Rightarrow> pystr \<Rightarrow> exn + pyval \<Rightarrow> env" where
  "reply_env text js parsed =
     \<lparr>GEMINI_API_KEY = Some (str ''key''),
      upstream = (\<lambda>prompt image_bytes max_outputs.
                    if image_bytes = tiny_png then Inr text else Inl OtherError),
      loads = (\<lambda>s. if s = js then parsed else Inl JSONDecodeError),
      int_of = int_ascii\<rparr>"

text \<open>The model answers with one caption and one song where three of each were asked for.\<close>

definition short_json :: pystr where
  \<open>short_json = str ''{"captions": ["Sunny day"], "songs": ["Yellow - Coldplay"]}''\<close>

definition short_env :: env where
  "short_env =
     reply_env short_json short_json
       (Inr (PDict [(str ''captions'', PList [PStr (str ''Sunny day'')]),
                    (str ''songs'', PList [PStr (str ''Yellow - Coldplay'')])]))"

definition png_request :: "pystr \<Rightarrow> request" where
  "png_request num =
     \<lparr>image = Some (str ''.png'', tiny_png),
      form_length = None, form_tone = None, form_region = None, form_mood = None,
      form_num = Some num\<rparr>"

text \<open>The prompt that the route builds for such a request, with the defaults of the options.\<close>

definition default_prompt :: "int \<Rightarrow> pystr" where
  "default_prompt num =
     build_prompt num (str ''medium'') (str ''aesthetic'') (str ''any'') (str ''chill'')"

text \<open>The model answers in prose around a JSON object with string song entries.\<close>

definition pair_text :: pystr where
  \<open>pair_text =
     str ''Here you go: {"captions": ["Sunny day", "Blue sky"], "songs": ["Yellow - Coldplay", "Imagine"]}''\<close>

definition pair_json :: pystr where
  \<open>pair_json =
     str ''{"captions": ["Sunny day", "Blue sky"], "songs": ["Yellow - Coldplay", "Imagine"]}''\<close>

definition pair_env :: env where
  "pair_env =
     reply_env pair_text pair_json
       (Inr (PDict [(str ''captions'', PList [PStr (str ''Sunny day''), PStr (str ''Blue sky'')]),
                    (str ''songs'', PList [PStr (str ''Yellow - Coldplay''),
                                           PStr (str ''Imagine'')])]))"

text \<open>The model answers with headed lines and a piece in braces that is not JSON.\<close>

definition lines_text :: pystr where
  "lines_text =
     str ''Captions:\<newline>Sunny day at the beach\<newline>Songs:\<newline>Yellow by Coldplay\<newline>{x}''"

definition lines_env :: env where
  "lines_env = reply_env lines_text (str ''{x}'') (Inl JSONDecodeError)"

text \<open>The model answers with a JSON object whose captions are a number.\<close>

definition odd_json :: pystr where
  \<open>odd_json = str ''{"captions": 5, "songs": []}''\<close>

definition odd_env :: env where
  "odd_env =
     reply_env odd_json odd_json
       (Inr (PDict [(str ''captions'', PInt 5), (str ''songs'', PList [])]))"

section \<open>Properties of the mock generator\<close>

lemma length_base_captions: "length base_captions = 7"
  by (simp add: base_captions_def)

lemma length_pools:
  "length bollywood_songs = 7" "length hollywood_songs = 7"
  "length tollywood_songs = 7" "length kpop_songs = 7"
  by (simp_all add: bollywood_songs_def hollywood_songs_def tollywood_songs_def kpop_songs_def)

lemma base_songs_cases:
  "base_songs p = bollywood_songs \<or> base_songs p = tollywood_songs
   \<or> base_songs p = kpop_songs \<or> base_songs p = hollywood_songs"
  by (simp add: base_songs_def)

lemma length_base_songs: "length (base_songs p) = 7"
  using base_songs_cases [of p] length_pools by auto

lemma foldl_mock_step:
  "foldl (mock_step p) acc is =
     (fst acc @ map (\<lambda>i. base_captions ! ((seed p + i) mod length base_captions)) is,
      snd acc @ map (\<lambda>i. base_songs p ! ((seed p + i) mod length (base_songs p))) is)"
  by (induction "is" arbitrary: acc) (simp_all add: mock_step_def)

lemma captions_mock:
  "captions (get_mock_response p n) =
     PList (map (\<lambda>i. PStr (base_captions ! ((seed p + i) mod 7))) [0 ..< nat n])"
  by (simp add: get_mock_response_def foldl_mock_step length_base_captions o_def)

lemma songs_mock:
  "songs (get_mock_response p n) =
     map (\<lambda>i. base_songs p ! ((seed p + i) mod 7)) [0 ..< nat n]"
  by (simp add: get_mock_response_def foldl_mock_step length_base_songs)

lemma result_eqI: "captions r = c \<Longrightarrow> songs r = s \<Longrightarrow> (r::result) = \<lparr>captions = c, songs = s\<rparr>"
  by (cases r) simp

lemma base_songs_Nil: "base_songs [] = hollywood_songs"
  by (simp add: base_songs_def lower_def str_def)

lemma seed_Nil: "seed [] = 0"
  by (simp add: seed_def)

lemma upt_3: "[0 ..< 3] = [0, 1, 2::nat]"
  by (simp add: upt_rec)

lemma mock_empty_3: "get_mock_response [] 3 =
   \<lparr>captions = PList [PStr (base_captions ! 0), PStr (base_captions ! 1), PStr (base_captions ! 2)],
    songs = [hollywood_songs ! 0, hollywood_songs ! 1, hollywood_songs ! 2]\<rparr>"
  by (rule result_eqI) (simp_all add: captions_mock songs_mock upt_3 seed_Nil base_songs_Nil)

text \<open>
  C3. For every prompt and count the mock generator takes as seed the sum of the
  character codes of the prompt modulo 7, the length of the caption pool, and 0 for the
  empty prompt. Caption \<open>i\<close> is the caption at index \<open>(seed + i) mod 7\<close> of the pool
  and song \<open>i\<close> is the song at index \<open>(seed + i)\<close> modulo the length of the selected
  pool, for \<open>i\<close> from 0 below the count. For the empty prompt and count 3 these are the
  first three captions and the first three hollywood songs.
\<close>

theorem get_mock_response_indexing:
  "seed prompt = (if prompt = [] then 0 else sum_list prompt mod 7)
   \<and> captions (get_mock_response prompt n) =
       PList (map (\<lambda>i. PStr (base_captions ! ((seed prompt + i) mod 7))) [0 ..< nat n])
   \<and> songs (get_mock_response prompt n) =
       map (\<lambda>i. base_songs prompt ! ((seed prompt + i) mod length (base_songs prompt)))
         [0 ..< nat n]
   \<and> get_mock_response [] 3 =
       \<lparr>captions = PList [PStr (base_captions ! 0), PStr (base_captions ! 1),
                            PStr (base_captions ! 2)],
        songs = [hollywood_songs ! 0, hollywood_songs ! 1, hollywood_songs ! 2]\<rparr>"
  by (simp add: seed_def length_base_captions captions_mock songs_mock length_base_songs
      mock_empty_3)

lemma py_in_iff: "py_in sub s \<longleftrightarrow> (\<exists>a b. s = a @ sub @ b)"
proof (induction s)
  case Nil
  show ?case by auto
next
  case (Cons c cs)
  show ?case
  proof
    assume "py_in sub (c # cs)"
    then consider "prefix sub (c # cs)" | "py_in sub cs" by auto
    then show "\<exists>a b. c # cs = a @ sub @ b"
    proof cases
      case 1
      then obtain b where "c # cs = sub @ b" by (auto simp: prefix_def)
      then have "c # cs = [] @ sub @ b" by simp
      then show ?thesis by blast
    next
      case 2
      with Cons.IH obtain a b where "cs = a @ sub @ b" by blast
      then have "c # cs = (c # a) @ sub @ b" by simp
      then show ?thesis by blast
    qed
  next
    assume "\<exists>a b. c # cs = a @ sub @ b"
    then obtain a b where ab: "c # cs = a @ sub @ b" by blast
    show "py_in sub (c # cs)"
    proof (cases a)
      case Nil
      with ab have "prefix sub (c # cs)" by (simp add: prefix_def)
      then show ?thesis by simp
    next
      case (Cons x a')
      with ab have "cs = a' @ sub @ b" by simp
      with Cons.IH have "py_in sub cs" by blast
      then show ?thesis by simp
    qed
  qed
qed

lemma lower_append: "lower (a @ b) = lower a @ lower b"
  by (simp add: lower_def)

lemma py_in_lower_append: "lower w = kw \<Longrightarrow> py_in kw (lower (a @ w @ b))"
  unfolding py_in_iff lower_append by blast

lemma mock_songs_subset: "set (songs (get_mock_response p n)) \<subseteq> set (base_songs p)"
  by (auto simp: songs_mock length_base_songs)

text \<open>
  C6. The mock generator looks for the keywords in the lower-cased prompt, in the order
  bollywood, tollywood, kpop or k-pop, hollywood. All songs come from the bollywood pool
  when the prompt has "bollywood" in any case, from the tollywood pool when it has
  "tollywood" and not "bollywood", from the kpop pool when it has "kpop" or "k-pop" and
  neither of the two before, and from the hollywood pool when it has none of these
  keywords or is empty.
\<close>

theorem get_mock_response_region:
  "(py_in (str ''bollywood'') (lower prompt) \<longrightarrow>
      set (songs (get_mock_response prompt n)) \<subseteq> set bollywood_songs)
   \<and> (\<not> py_in (str ''bollywood'') (lower prompt) \<and> py_in (str ''tollywood'') (lower prompt) \<longrightarrow>
      set (songs (get_mock_response prompt n)) \<subseteq> set tollywood_songs)
   \<and> (\<not> py_in (str ''bollywood'') (lower prompt) \<and> \<not> py_in (str ''tollywood'') (lower prompt)
       \<and> (py_in (str ''kpop'') (lower prompt) \<or> py_in (str ''k-pop'') (lower prompt)) \<longrightarrow>
      set (songs (get_mock_response prompt n)) \<subseteq> set kpop_songs)
   \<and> (\<not> py_in (str ''bollywood'') (lower prompt) \<and> \<not> py_in (str ''tollywood'') (lower prompt)
       \<and> \<not> py_in (str ''kpop'') (lower prompt) \<and> \<not> py_in (str ''k-pop'') (lower prompt) \<longrightarrow>
      set (songs (get_mock_response prompt n)) \<subseteq> set hollywood_songs)
   \<and> set (songs (get_mock_response [] n)) \<subseteq> set hollywood_songs
   \<and> (lower w = str ''bollywood'' \<longrightarrow>
      set (songs (get_mock_response (a @ w @ b) n)) \<subseteq> set bollywood_songs)"
proof -
  have any_case: "set (songs (get_mock_response (a @ w @ b) n)) \<subseteq> set bollywood_songs"
    if "lower w = str ''bollywood''"
  proof -
    have "base_songs (a @ w @ b) = bollywood_songs"
      using py_in_lower_append [OF that] by (simp add: base_songs_def)
    with mock_songs_subset [of "a @ w @ b" n] show ?thesis by simp
  qed
  have empty: "set (songs (get_mock_response [] n)) \<subseteq> set hollywood_songs"
    using mock_songs_subset [of "[]" n] by (simp add: base_songs_Nil)
  have sub: "set (songs (get_mock_response prompt n)) \<subseteq> set (base_songs prompt)"
    by (rule mock_songs_subset)
  have b: "set (songs (get_mock_response prompt n)) \<subseteq> set bollywood_songs"
    if "py_in (str ''bollywood'') (lower prompt)"
    using sub that by (simp add: base_songs_def)
  have t: "set (songs (get_mock_response prompt n)) \<subseteq> set tollywood_songs"
    if "\<not> py_in (str ''bollywood'') (lower prompt)" "py_in (str ''tollywood'') (lower prompt)"
    using sub that by (simp add: base_songs_def)
  have k: "set (songs (get_mock_response prompt n)) \<subseteq> set kpop_songs"
    if "\<not> py_in (str ''bollywood'') (lower prompt)" "\<not> py_in (str ''tollywood'') (lower prompt)"
       "py_in (str ''kpop'') (lower prompt) \<or> py_in (str ''k-pop'') (lower prompt)"
    using sub that by (simp add: base_songs_def)
  have h: "set (songs (get_mock_response prompt n)) \<subseteq> set hollywood_songs"
    if "\<not> py_in (str ''bollywood'') (lower prompt)" "\<not> py_in (str ''tollywood'') (lower prompt)"
       "\<not> py_in (str ''kpop'') (lower prompt)" "\<not> py_in (str ''k-pop'') (lower prompt)"
    using sub that by (simp add: base_songs_def)
  from b t k h any_case empty show ?thesis by blast
qed

section \<open>Properties of line-based recovery\<close>

lemma has_title_artist_song: "has_title_artist (song t a)"
  by (simp add: has_title_artist_def song_def)

lemma pools_have_title_artist:
  "list_all has_title_artist bollywood_songs" "list_all has_title_artist hollywood_songs"
  "list_all has_title_artist tollywood_songs" "list_all has_title_artist kpop_songs"
  by (simp_all add: bollywood_songs_def hollywood_songs_def tollywood_songs_def kpop_songs_def
      has_title_artist_song)

lemma base_songs_have_title_artist: "list_all has_title_artist (base_songs p)"
  using base_songs_cases [of p] pools_have_title_artist by auto

lemma mock_songs_have_title_artist: "list_all has_title_artist (songs (get_mock_response p n))"
  using mock_songs_subset [of p n] base_songs_have_title_artist [of p]
  by (auto simp: list_all_iff)

lemma split_from_not_Nil: "split_from sep cur s \<noteq> []"
  by (induction sep cur s rule: split_from.induct) simp_all

lemma split_from_two: "sep \<noteq> [] \<Longrightarrow> py_in sep s \<Longrightarrow> 2 \<le> length (split_from sep cur s)"
proof (induction sep cur s rule: split_from.induct)
  case (1 sep cur)
  then show ?case by simp
next
  case (2 sep cur c cs)
  show ?case
  proof (cases "prefix sep (c # cs)")
    case True
    have "split_from sep [] (drop (length sep) (c # cs)) \<noteq> []"
      by (rule split_from_not_Nil)
    then have "1 \<le> length (split_from sep [] (drop (length sep) (c # cs)))"
      by (simp add: Suc_le_eq)
    with True 2(3) show ?thesis by simp
  next
    case False
    with 2(4) have "py_in sep cs" by simp
    with 2(2) [OF _ 2(3)] False have "2 \<le> length (split_from sep (cur @ [c]) cs)" by simp
    with False show ?thesis by simp
  qed
qed

lemma split_song_ok:
  assumes "sep \<noteq> []" "py_in sep s"
  shows "\<exists>t a. split_song s sep = Inr (song t a)"
proof -
  have "2 \<le> length (py_split s sep)"
    using split_from_two [OF assms] by (simp add: py_split_def)
  then obtain t a rest where "py_split s sep = t # a # rest"
    by (auto simp: numeral_2_eq_2 Suc_le_length_iff)
  then have "split_song s sep = Inr (song (strip t) (strip a))"
    by (simp add: split_song_def Let_def bind_exn_def py_index_def)
  then show ?thesis by blast
qed

lemma str_not_Nil: "str '' by '' \<noteq> []" "str '' - '' \<noteq> []"
  by (simp_all add: str_def)

lemma scan_line_inv:
  assumes "scan_inv n st"
  shows "case scan_line n st l of Inl e \<Rightarrow> False | Inr st' \<Rightarrow> scan_inv n st'"
proof -
  let ?s = "cleanup (strip l)"
  have inv: "int (length (caps st)) \<le> max 0 n" "int (length (sngs st)) \<le> max 0 n"
    "list_all has_title_artist (sngs st)"
    using assms by (simp_all add: scan_inv_def)
  show ?thesis
  proof (cases "py_in (str '' by '') ?s")
    case True
    from split_song_ok [OF str_not_Nil(1) True]
    obtain t a where "split_song ?s (str '' by '') = Inr (song t a)" by blast
    with True inv show ?thesis
      by (auto simp: scan_line_def Let_def bind_exn_def scan_inv_def has_title_artist_song)
  next
    case no_by: False
    show ?thesis
    proof (cases "py_in (str '' - '') ?s")
      case True
      from split_song_ok [OF str_not_Nil(2) True]
      obtain t a where "split_song ?s (str '' - '') = Inr (song t a)" by blast
      with True no_by inv show ?thesis
        by (auto simp: scan_line_def Let_def bind_exn_def scan_inv_def has_title_artist_song)
    next
      case False
      with no_by inv show ?thesis
        by (auto simp: scan_line_def Let_def bind_exn_def scan_inv_def has_title_artist_song)
    qed
  qed
qed

lemma scan_line_ok:
  assumes "scan_inv n st"
  shows "\<exists>st'. scan_line n st l = Inr st' \<and> scan_inv n st'"
  using scan_line_inv [OF assms, of l] by (cases "scan_line n st l") simp_all

lemma scan_lines_ok:
  "scan_inv n st \<Longrightarrow> \<exists>st'. scan_lines n st ls = Inr st' \<and> scan_inv n st'"
proof (induction ls arbitrary: st)
  case Nil
  then show ?case by simp
next
  case (Cons l ls)
  from scan_line_ok [OF Cons.prems, of l]
  obtain st1 where 1: "scan_line n st l = Inr st1" "scan_inv n st1" by blast
  from Cons.IH [OF 1(2)] 1(1) show ?case by simp
qed

lemma pad_ok:
  "(int (length xs) < n \<longrightarrow> ms \<noteq> []) \<Longrightarrow>
   \<exists>ys. pad xs (PList ms) n = Inr ys \<and> n \<le> int (length ys) \<and> length xs \<le> length ys
        \<and> (n \<le> int (length xs) \<longrightarrow> ys = xs) \<and> set ys \<subseteq> set xs \<union> set ms"
proof (induction xs "PList ms" n rule: pad.induct)
  case (1 xs n)
  show ?case
  proof (cases "int (length xs) < n")
    case False
    then show ?thesis by (subst pad.simps) simp
  next
    case True
    with 1(2) have ms: "ms \<noteq> []" by simp
    let ?x = "ms ! (length xs mod length ms)"
    have lt: "length xs mod length ms < length ms" using ms by simp
    have item: "py_item (PList ms) (length xs mod length ms) = Inr ?x"
      using lt by (simp add: py_index_def)
    have "\<exists>ys. pad (xs @ [?x]) (PList ms) n = Inr ys \<and> n \<le> int (length ys)
          \<and> length (xs @ [?x]) \<le> length ys
          \<and> (n \<le> int (length (xs @ [?x])) \<longrightarrow> ys = xs @ [?x])
          \<and> set ys \<subseteq> set (xs @ [?x]) \<union> set ms"
      using 1(1) [OF True _ _ item] ms by simp
    then obtain ys where ys: "pad (xs @ [?x]) (PList ms) n = Inr ys" "n \<le> int (length ys)"
      "length (xs @ [?x]) \<le> length ys" "set ys \<subseteq> set (xs @ [?x]) \<union> set ms" by blast
    have "pad xs (PList ms) n = Inr ys"
      using True ms item ys(1) by (subst pad.simps) simp
    moreover have "?x \<in> set ms" using lt by simp
    ultimately show ?thesis using ys True by auto
  qed
qed

lemma length_py_slice:
  "n \<le> int (length xs) \<Longrightarrow> (n < 0 \<longrightarrow> xs = []) \<Longrightarrow> length (py_slice xs 0 n) = nat n"
  by (auto simp: py_slice_def slice_bound_def Let_def)

lemma set_py_slice: "set (py_slice xs a b) \<subseteq> set xs"
  unfolding py_slice_def Let_def
  by (meson set_take_subset set_drop_subset subset_trans)

lemma length_mock:
  "captions (get_mock_response p n) = PList cs \<Longrightarrow> length cs = nat n"
  "length (songs (get_mock_response p n)) = nat n"
  by (auto simp: captions_mock songs_mock)

lemma parse_gemini_response_ok:
  "\<exists>cs ss. parse_gemini_response text n = Inr \<lparr>captions = PList cs, songs = ss\<rparr>
     \<and> length cs = nat n \<and> length ss = nat n \<and> list_all has_title_artist ss"
proof -
  let ?st0 = "\<lparr>caps = [], sngs = [], current_section = NoSection\<rparr>"
  have "scan_inv n ?st0" by (simp add: scan_inv_def)
  from scan_lines_ok [OF this]
  obtain st where st: "scan_lines n ?st0 (py_split text (str ''\<newline>'')) = Inr st"
    and inv: "scan_inv n st" by blast
  obtain mc where mc: "captions (get_mock_response [] n) = PList mc" "length mc = nat n"
    by (simp add: captions_mock)
  let ?ms = "songs (get_mock_response [] n)"
  have ms: "length ?ms = nat n" "list_all has_title_artist ?ms"
    by (simp_all add: length_mock mock_songs_have_title_artist)
  show ?thesis
  proof (cases "int (length (caps st)) < n \<or> int (length (sngs st)) < n")
    case True
    then have pos: "0 < n" by auto
    then have ne: "mc \<noteq> []" "?ms \<noteq> []" using mc(2) ms(1) by auto
    from pad_ok [of "caps st" n mc] ne
    obtain cs where cs: "pad (caps st) (PList mc) n = Inr cs" "n \<le> int (length cs)" by blast
    from pad_ok [of "sngs st" n ?ms] ne
    obtain ss where ss: "pad (sngs st) (PList ?ms) n = Inr ss" "n \<le> int (length ss)"
      "set ss \<subseteq> set (sngs st) \<union> set ?ms" by blast
    have eq: "parse_gemini_response text n =
        Inr \<lparr>captions = PList (py_slice cs 0 n), songs = py_slice ss 0 n\<rparr>"
      using st True mc(1) cs(1) ss(1)
      by (simp add: parse_gemini_response_def bind_exn_def Let_def)
    have "list_all has_title_artist ss"
      using ss(3) inv ms(2) by (auto simp: list_all_iff scan_inv_def)
    then have "list_all has_title_artist (py_slice ss 0 n)"
      using set_py_slice [of ss 0 n] by (auto simp: list_all_iff)
    moreover have "length (py_slice cs 0 n) = nat n" "length (py_slice ss 0 n) = nat n"
      using cs(2) ss(2) pos by (simp_all add: length_py_slice)
    ultimately show ?thesis using eq by blast
  next
    case False
    have eq: "parse_gemini_response text n =
        Inr \<lparr>captions = PList (py_slice (caps st) 0 n), songs = py_slice (sngs st) 0 n\<rparr>"
      using st False by (simp add: parse_gemini_response_def bind_exn_def Let_def)
    have "list_all has_title_artist (py_slice (sngs st) 0 n)"
      using set_py_slice [of "sngs st" 0 n] inv by (auto simp: list_all_iff scan_inv_def)
    moreover have "length (py_slice (caps st) 0 n) = nat n"
      using False inv by (intro length_py_slice) (auto simp: scan_inv_def)
    moreover have "length (py_slice (sngs st) 0 n) = nat n"
      using False inv by (intro length_py_slice) (auto simp: scan_inv_def)
    ultimately show ?thesis using eq by blast
  qed
qed

section \<open>Properties of the adapter and of the route\<close>

lemmas str_eval = str_def strip_def isspace_def lower_def lower_cp_def cleanup_def py_split_def

lemma has_title_artist_format_song: "list_all has_title_artist (format_song v)"
proof (cases v)
  case (PDict kvs)
  then show ?thesis by (simp add: has_title_artist_def)
next
  case (PStr s)
  then show ?thesis by (simp add: Let_def has_title_artist_song)
qed simp_all

lemma has_title_artist_concat:
  "list_all has_title_artist (concat (map format_song entries))"
  by (induction entries) (simp_all add: has_title_artist_format_song)

lemma extract_json_songs:
  assumes "extract_json ld rtext n = Inr (Some r)"
  shows "list_all has_title_artist (songs r)"
proof -
  from assms obtain cs entries where "r = \<lparr>captions = cs, songs = concat (map format_song entries)\<rparr>"
    by (auto simp: extract_json_def Let_def bind_exn_def split: if_splits sum.splits)
  then show ?thesis by (simp add: has_title_artist_concat)
qed

lemma parse_gemini_response_songs:
  "parse_gemini_response rtext n = Inr r \<Longrightarrow> list_all has_title_artist (songs r)"
  using parse_gemini_response_ok [of rtext n] by auto

lemma parse_gemini_response_returns: "\<exists>r. parse_gemini_response rtext n = Inr r"
  using parse_gemini_response_ok [of rtext n] by blast

lemma call_model_songs:
  assumes "call_model e prompt image_bytes n = Inr r"
  shows "list_all has_title_artist (songs r)"
proof -
  from assms obtain rtext where up: "upstream e prompt image_bytes n = Inr rtext"
    by (cases "upstream e prompt image_bytes n") (simp_all add: call_model_def bind_exn_def)
  let ?t = "strip rtext"
  show ?thesis
  proof (cases "extract_json (loads e) ?t n")
    case (Inr opt)
    show ?thesis
    proof (cases opt)
      case None
      with Inr up assms have "parse_gemini_response ?t n = Inr r"
        by (simp add: call_model_def bind_exn_def)
      then show ?thesis by (rule parse_gemini_response_songs)
    next
      case (Some r')
      with Inr up assms have "r' = r" by (simp add: call_model_def bind_exn_def)
      with Inr Some show ?thesis using extract_json_songs by blast
    qed
  next
    case (Inl x)
    with up assms have "parse_gemini_response ?t n = Inr r"
      by (cases x) (simp_all add: call_model_def bind_exn_def)
    then show ?thesis by (rule parse_gemini_response_songs)
  qed
qed

text \<open>
  C10. On every path every entry of the returned songs list is a dictionary with the keys
  \<open>title\<close> and \<open>artist\<close>: in the mock generator, in line-based recovery, and in
  whatever the adapter returns (mock path, JSON path and recovery).
\<close>

theorem songs_have_title_artist:
  "list_all has_title_artist (songs (get_mock_response prompt n))
   \<and> (\<forall>r. parse_gemini_response rtext n = Inr r \<longrightarrow> list_all has_title_artist (songs r))
   \<and> (\<forall>r. call_gemini e prompt image_bytes n = Inr r \<longrightarrow> list_all has_title_artist (songs r))"
proof (intro conjI allI impI)
  show "list_all has_title_artist (songs (get_mock_response prompt n))"
    by (rule mock_songs_have_title_artist)
next
  fix r assume "parse_gemini_response rtext n = Inr r"
  then show "list_all has_title_artist (songs r)" by (rule parse_gemini_response_songs)
next
  fix r assume r: "call_gemini e prompt image_bytes n = Inr r"
  show "list_all has_title_artist (songs r)"
  proof (cases "GEMINI_API_KEY e = None \<or> GEMINI_API_KEY e = Some []")
    case True
    with r have "r = get_mock_response prompt n" by (simp add: call_gemini_def)
    then show ?thesis by (simp add: mock_songs_have_title_artist)
  next
    case False
    then have k: "GEMINI_API_KEY e \<noteq> None" "GEMINI_API_KEY e \<noteq> Some []" by simp_all
    show ?thesis
    proof (cases "call_model e prompt image_bytes n")
      case (Inl x)
      with r have "r = get_mock_response prompt n" by (simp add: call_gemini_def k)
      then show ?thesis by (simp add: mock_songs_have_title_artist)
    next
      case (Inr r')
      with r have "r' = r" by (simp add: call_gemini_def k)
      with Inr show ?thesis using call_model_songs by blast
    qed
  qed
qed

text \<open>
  C4, as amended. The adapter never raises: it returns a result for every environment,
  prompt, image and count. Without a credential the result is the mock generator's. An
  exception of the external call, and every exception of the JSON extraction other than
  \<open>JSONDecodeError\<close>, is answered with the mock generator's result. A
  \<open>JSONDecodeError\<close> is caught on its own: the result is then the one of line-based
  recovery on the response text, which always returns.
\<close>

theorem call_gemini_never_raises:
  "(\<exists>r. call_gemini e prompt image_bytes n = Inr r)
   \<and> (GEMINI_API_KEY e = None \<or> GEMINI_API_KEY e = Some [] \<longrightarrow>
        call_gemini e prompt image_bytes n = Inr (get_mock_response prompt n))
   \<and> (\<forall>x. upstream e prompt image_bytes n = Inl x \<longrightarrow>
        call_gemini e prompt image_bytes n = Inr (get_mock_response prompt n))
   \<and> (\<forall>rtext x. upstream e prompt image_bytes n = Inr rtext
        \<and> extract_json (loads e) (strip rtext) n = Inl x \<and> x \<noteq> JSONDecodeError \<longrightarrow>
        call_gemini e prompt image_bytes n = Inr (get_mock_response prompt n))
   \<and> (\<forall>rtext. GEMINI_API_KEY e \<noteq> None \<and> GEMINI_API_KEY e \<noteq> Some []
        \<and> upstream e prompt image_bytes n = Inr rtext
        \<and> extract_json (loads e) (strip rtext) n = Inl JSONDecodeError \<longrightarrow>
        call_gemini e prompt image_bytes n = parse_gemini_response (strip rtext) n
        \<and> (\<exists>r. parse_gemini_response (strip rtext) n = Inr r))"
proof (intro conjI allI impI)
  show "\<exists>r. call_gemini e prompt image_bytes n = Inr r"
    by (cases "call_model e prompt image_bytes n") (simp_all add: call_gemini_def)
next
  assume "GEMINI_API_KEY e = None \<or> GEMINI_API_KEY e = Some []"
  then show "call_gemini e prompt image_bytes n = Inr (get_mock_response prompt n)"
    by (simp add: call_gemini_def)
next
  fix x assume "upstream e prompt image_bytes n = Inl x"
  then have "call_model e prompt image_bytes n = Inl x"
    by (simp add: call_model_def bind_exn_def)
  then show "call_gemini e prompt image_bytes n = Inr (get_mock_response prompt n)"
    by (simp add: call_gemini_def)
next
  fix rtext x
  assume "upstream e prompt image_bytes n = Inr rtext
    \<and> extract_json (loads e) (strip rtext) n = Inl x \<and> x \<noteq> JSONDecodeError"
  then have "call_model e prompt image_bytes n = Inl x"
    by (cases x) (simp_all add: call_model_def bind_exn_def)
  then show "call_gemini e prompt image_bytes n = Inr (get_mock_response prompt n)"
    by (simp add: call_gemini_def)
next
  fix rtext
  assume a: "GEMINI_API_KEY e \<noteq> None \<and> GEMINI_API_KEY e \<noteq> Some []
    \<and> upstream e prompt image_bytes n = Inr rtext
    \<and> extract_json (loads e) (strip rtext) n = Inl JSONDecodeError"
  then have cm: "call_model e prompt image_bytes n = parse_gemini_response (strip rtext) n"
    by (simp add: call_model_def bind_exn_def)
  obtain r where r: "parse_gemini_response (strip rtext) n = Inr r"
    using parse_gemini_response_returns by blast
  from a have k: "GEMINI_API_KEY e \<noteq> None" "GEMINI_API_KEY e \<noteq> Some []" by simp_all
  from cm r show "call_gemini e prompt image_bytes n = parse_gemini_response (strip rtext) n"
    by (simp add: call_gemini_def k)
  from r show "\<exists>r. parse_gemini_response (strip rtext) n = Inr r" by blast
qed

text \<open>
  C9. The caption pool and the four song pools have seven entries each, so the caption and
  the song at position \<open>i\<close> are taken at the same index \<open>(seed + i) mod 7\<close> of
  their pools.
\<close>

theorem get_mock_response_same_index:
  "length base_captions = 7 \<and> length bollywood_songs = 7 \<and> length hollywood_songs = 7
   \<and> length tollywood_songs = 7 \<and> length kpop_songs = 7
   \<and> length (base_songs prompt) = length base_captions
   \<and> get_mock_response prompt n =
       \<lparr>captions = PList (map (\<lambda>i. PStr (base_captions ! ((seed prompt + i) mod 7))) [0 ..< nat n]),
        songs = map (\<lambda>i. base_songs prompt ! ((seed prompt + i) mod 7)) [0 ..< nat n]\<rparr>"
proof -
  have "get_mock_response prompt n =
       \<lparr>captions = PList (map (\<lambda>i. PStr (base_captions ! ((seed prompt + i) mod 7))) [0 ..< nat n]),
        songs = map (\<lambda>i. base_songs prompt ! ((seed prompt + i) mod 7)) [0 ..< nat n]\<rparr>"
    by (rule result_eqI) (simp_all add: captions_mock songs_mock)
  then show ?thesis
    by (simp add: length_base_captions length_pools length_base_songs)
qed

text \<open>
  C7. The count that the route reads from the field \<open>num\<close> lies between 1 and 6.
  A value that parses to \<open>k\<close> gives \<open>k\<close> cut to that range, so 0 gives 1 and 10
  gives 6; a missing field gives 3; a value that does not parse gives 3.
\<close>

theorem read_num_clamped:
  "1 \<le> read_num e field \<and> read_num e field \<le> 6
   \<and> (int_of e s = Inr k \<longrightarrow> read_num e (Some s) = max 1 (min 6 k))
   \<and> (int_of e (str ''0'') = Inr 0 \<longrightarrow> read_num e (Some (str ''0'')) = 1)
   \<and> (int_of e (str ''10'') = Inr 10 \<longrightarrow> read_num e (Some (str ''10'')) = 6)
   \<and> (int_of e (str ''3'') = Inr 3 \<longrightarrow> read_num e None = 3)
   \<and> (int_of e s = Inl x \<longrightarrow> read_num e (Some s) = 3)"
proof -
  have "1 \<le> read_num e field \<and> read_num e field \<le> 6"
    by (cases "int_of e (form_get field (str ''3''))") (simp_all add: read_num_def)
  then show ?thesis by (simp add: read_num_def form_get_def)
qed

section \<open>The JSON path, and the examples evaluated\<close>

lemma prefix_within: "prefix xs (ys @ zs) \<Longrightarrow> length xs \<le> length ys \<Longrightarrow> prefix xs ys"
  by (auto simp: prefix_append)

lemma split_from_none: "\<not> py_in sep s \<Longrightarrow> split_from sep cur s = [cur @ s]"
  by (induction s arbitrary: cur) simp_all

lemma split_from_first:
  assumes "sep \<noteq> []"
  shows "\<not> py_in sep (t @ butlast sep) \<Longrightarrow>
    split_from sep cur (t @ sep @ rest) = (cur @ t) # split_from sep [] rest"
proof (induction t arbitrary: cur)
  case Nil
  from assms obtain c cs where sep: "sep = c # cs" by (cases sep) auto
  have "split_from sep cur (c # (cs @ rest)) = cur # split_from sep [] (drop (length sep) (c # (cs @ rest)))"
    using assms by (subst split_from.simps) (simp add: sep)
  then show ?case by (simp add: sep)
next
  case (Cons x t)
  have no_prefix: "\<not> prefix sep (x # t @ sep @ rest)"
  proof
    assume p: "prefix sep (x # t @ sep @ rest)"
    have "x # t @ sep @ rest = (x # t @ butlast sep) @ ([last sep] @ rest)"
      using assms by simp
    with p have "prefix sep ((x # t @ butlast sep) @ ([last sep] @ rest))" by simp
    moreover have "length sep \<le> length (x # t @ butlast sep)" by simp
    ultimately have "prefix sep (x # t @ butlast sep)" by (rule prefix_within)
    with Cons.prems show False by simp
  qed
  from Cons.prems have "\<not> py_in sep (t @ butlast sep)" by simp
  from Cons.IH [OF this, of "cur @ [x]"] no_prefix show ?case by simp
qed

lemma sep_dash: "str '' - '' \<noteq> []" "butlast (str '' - '') = str '' -''"
  by (simp_all add: str_def)

lemma format_song_plain:
  "\<not> py_in (str '' - '') s \<Longrightarrow> format_song (PStr s) = [song (strip s) (str ''Unknown Artist'')]"
  by (simp add: py_split_def split_from_none)

lemma format_song_one:
  assumes "\<not> py_in (str '' - '') (t @ str '' -'')" "\<not> py_in (str '' - '') a"
  shows "format_song (PStr (t @ str '' - '' @ a)) = [song (strip t) (strip a)]"
proof -
  have "py_split (t @ str '' - '' @ a) (str '' - '') = [t, a]"
    using assms split_from_first [OF sep_dash(1), of t "[]" a]
    by (simp add: py_split_def sep_dash split_from_none)
  then show ?thesis by simp
qed

lemma format_song_more:
  assumes "\<not> py_in (str '' - '') (t @ str '' -'')" "\<not> py_in (str '' - '') (a @ str '' -'')"
  shows "format_song (PStr (t @ str '' - '' @ a @ str '' - '' @ others)) = [song (strip t) (strip a)]"
proof -
  have "py_split (t @ str '' - '' @ a @ str '' - '' @ others) (str '' - '')
      = t # a # split_from (str '' - '') [] others"
    using assms split_from_first [OF sep_dash(1), of t "[]" "a @ str '' - '' @ others"]
      split_from_first [OF sep_dash(1), of a "[]" others]
    by (simp add: py_split_def sep_dash)
  then show ?thesis by simp
qed

lemma json_path:
  assumes key: "GEMINI_API_KEY e \<noteq> None" "GEMINI_API_KEY e \<noteq> Some []"
    and up: "upstream e prompt image_bytes n = Inr reply"
    and idx: "py_find (strip reply) (of_char CHR ''{'') \<noteq> - 1"
      "py_rfind (strip reply) (of_char CHR ''}'') + 1 \<noteq> 0"
    and ld: "loads e (py_slice (strip reply) (py_find (strip reply) (of_char CHR ''{''))
               (py_rfind (strip reply) (of_char CHR ''}'') + 1)) = Inr (PDict kvs)"
    and c: "map_of kvs (str ''captions'') = Some (PList cs)"
    and s: "map_of kvs (str ''songs'') = Some (PList ss)"
  shows "call_gemini e prompt image_bytes n =
     Inr \<lparr>captions = PList (py_slice cs 0 n),
          songs = concat (map format_song (py_slice ss 0 n))\<rparr>"
proof -
  have in_c: "str ''captions'' \<in> fst ` set kvs" using c by (rule map_of_SomeD [THEN imageI, of _ _ _ fst, simplified])
  have in_s: "str ''songs'' \<in> fst ` set kvs" using s by (rule map_of_SomeD [THEN imageI, of _ _ _ fst, simplified])
  have "extract_json (loads e) (strip reply) n =
      Inr (Some \<lparr>captions = PList (py_slice cs 0 n),
                 songs = concat (map format_song (py_slice ss 0 n))\<rparr>)"
    using idx ld c s in_c in_s by (simp add: extract_json_def Let_def bind_exn_def)
  then have "call_model e prompt image_bytes n =
      Inr \<lparr>captions = PList (py_slice cs 0 n),
           songs = concat (map format_song (py_slice ss 0 n))\<rparr>"
    using up by (simp add: call_model_def bind_exn_def)
  then show ?thesis by (simp add: call_gemini_def key)
qed


lemma reply_env_simps:
  "GEMINI_API_KEY (reply_env reply js parsed) = Some (str ''key'')"
  "upstream (reply_env reply js parsed) p tiny_png n = Inr reply"
  "upstream (reply_env reply js parsed) p [] n = Inl OtherError"
  "loads (reply_env reply js parsed) js = parsed"
  "int_of (reply_env reply js parsed) = int_ascii"
  by (simp_all add: reply_env_def tiny_png_def)

lemma key_not_empty: "str ''key'' \<noteq> []"
  by (simp add: str_def)

lemma short_json_braces:
  "strip short_json = short_json"
  "py_find short_json 123 = 0"
  "py_rfind short_json 125 + 1 = int (length short_json)"
  "short_json \<noteq> []"
  by (simp_all add: short_json_def str_def strip_def isspace_def py_rfind_def)

lemma json_keys: "str ''captions'' \<noteq> str ''songs''" "str ''songs'' \<noteq> str ''captions''"
  by (simp_all add: str_def)

lemma py_slice_all: "py_slice xs 0 (int (length xs)) = xs"
  by (simp add: py_slice_def slice_bound_def)

lemma format_yellow:
  "format_song (PStr (str ''Yellow - Coldplay'')) = [song (str ''Yellow'') (str ''Coldplay'')]"
  by (simp add: str_eval)

lemma format_imagine:
  "format_song (PStr (str ''Imagine'')) = [song (str ''Imagine'') (str ''Unknown Artist'')]"
  by (simp add: str_eval)

lemma call_gemini_short:
  "call_gemini short_env prompt tiny_png 3 =
     Inr \<lparr>captions = PList [PStr (str ''Sunny day'')],
          songs = [song (str ''Yellow'') (str ''Coldplay'')]\<rparr>"
proof -
  have "call_gemini short_env prompt tiny_png 3 =
     Inr \<lparr>captions = PList (py_slice [PStr (str ''Sunny day'')] 0 3),
          songs = concat (map format_song (py_slice [PStr (str ''Yellow - Coldplay'')] 0 3))\<rparr>"
    unfolding short_env_def
    by (rule json_path [where reply = short_json and
          kvs = "[(str ''captions'', PList [PStr (str ''Sunny day'')]),
                    (str ''songs'', PList [PStr (str ''Yellow - Coldplay'')])]"])
       (simp_all add: reply_env_simps key_not_empty short_json_braces py_slice_all json_keys)
  then show ?thesis
    by (simp add: py_slice_def slice_bound_def format_yellow del: format_song.simps)
qed

lemma int_ascii_digits:
  "int_ascii (str ''0'') = Inr 0" "int_ascii (str ''3'') = Inr 3"
  "int_ascii (str ''10'') = Inr 10" "int_ascii (str ''abc'') = Inl ValueError"
  "int_ascii (str ''1'') = Inr 1"
  by (simp_all add: int_ascii_def str_def strip_def isspace_def)

lemma short_env_int: "int_of short_env = int_ascii"
  by (simp add: short_env_def reply_env_simps)

text \<open>
  C1. The claim: for every request with a valid image and every upstream outcome, the
  returned captions and songs have exactly as many entries as the clamped count. Here the
  request uploads the PNG file \<open>tiny_png\<close> and asks for three of each, the model
  answers with a JSON object of one caption and one song, and the route returns one
  caption and one song.
\<close>

theorem generate_short_reply:
  "read_num short_env (form_num (png_request (str ''3''))) = 3
   \<and> generate short_env (png_request (str ''3'')) =
       Ok (PList [PStr (str ''Sunny day'')]) (PList [song (str ''Yellow'') (str ''Coldplay'')])"
proof -
  have num: "read_num short_env (Some (str ''3'')) = 3"
    by (simp add: read_num_def form_get_def short_env_int int_ascii_digits)
  have ext: "str ''.png'' \<in> set UPLOAD_EXTENSIONS"
    by (simp add: UPLOAD_EXTENSIONS_def)
  show ?thesis
    using ext
    by (simp add: generate_def png_request_def num Let_def call_gemini_short
        py_slice_def slice_bound_def)
qed

lemma pair_text_braces:
  "py_find (strip pair_text) 123 \<noteq> - 1"
  "py_rfind (strip pair_text) 125 + 1 \<noteq> 0"
  "py_slice (strip pair_text) (py_find (strip pair_text) 123)
     (py_rfind (strip pair_text) 125 + 1) = pair_json"
  by (simp_all add: pair_text_def pair_json_def str_def strip_def isspace_def py_rfind_def
      py_slice_def slice_bound_def)

lemma call_gemini_pair:
  "call_gemini pair_env prompt tiny_png 2 =
     Inr \<lparr>captions = PList [PStr (str ''Sunny day''), PStr (str ''Blue sky'')],
          songs = [song (str ''Yellow'') (str ''Coldplay''),
                   song (str ''Imagine'') (str ''Unknown Artist'')]\<rparr>"
proof -
  have "call_gemini pair_env prompt tiny_png 2 =
     Inr \<lparr>captions = PList (py_slice [PStr (str ''Sunny day''), PStr (str ''Blue sky'')] 0 2),
          songs = concat (map format_song
            (py_slice [PStr (str ''Yellow - Coldplay''), PStr (str ''Imagine'')] 0 2))\<rparr>"
    unfolding pair_env_def
    by (rule json_path [where reply = pair_text and
          kvs = "[(str ''captions'', PList [PStr (str ''Sunny day''), PStr (str ''Blue sky'')]),
                  (str ''songs'', PList [PStr (str ''Yellow - Coldplay''),
                                         PStr (str ''Imagine'')])]"])
       (simp_all add: reply_env_simps key_not_empty pair_text_braces json_keys)
  then show ?thesis
    by (simp add: py_slice_def slice_bound_def format_yellow format_imagine
        del: format_song.simps)
qed

text \<open>
  C8. On the JSON path (the extracted object parses and has a list of captions and a list
  of songs) the adapter returns the first \<open>n\<close> captions and formats the first \<open>n\<close>
  song entries. A string entry is split at \<open>" - "\<close>: the title is the stripped part
  before the first separator and the artist is the stripped part after it, up to the next
  separator if there is one. A string entry without the separator becomes the stripped
  string as title with the artist "Unknown Artist".
\<close>

theorem json_songs_split:
  "(GEMINI_API_KEY e \<noteq> None \<and> GEMINI_API_KEY e \<noteq> Some []
     \<and> upstream e prompt image_bytes n = Inr reply
     \<and> py_find (strip reply) (of_char CHR ''{'') \<noteq> - 1
     \<and> py_rfind (strip reply) (of_char CHR ''}'') + 1 \<noteq> 0
     \<and> loads e (py_slice (strip reply) (py_find (strip reply) (of_char CHR ''{''))
               (py_rfind (strip reply) (of_char CHR ''}'') + 1)) = Inr (PDict kvs)
     \<and> map_of kvs (str ''captions'') = Some (PList cs)
     \<and> map_of kvs (str ''songs'') = Some (PList ss) \<longrightarrow>
     call_gemini e prompt image_bytes n =
       Inr \<lparr>captions = PList (py_slice cs 0 n),
            songs = concat (map format_song (py_slice ss 0 n))\<rparr>)
   \<and> (\<not> py_in (str '' - '') (t @ str '' -'') \<and> \<not> py_in (str '' - '') a \<longrightarrow>
        format_song (PStr (t @ str '' - '' @ a)) = [song (strip t) (strip a)])
   \<and> (\<not> py_in (str '' - '') (t @ str '' -'') \<and> \<not> py_in (str '' - '') (a @ str '' -'') \<longrightarrow>
        format_song (PStr (t @ str '' - '' @ a @ str '' - '' @ others)) =
          [song (strip t) (strip a)])
   \<and> (\<not> py_in (str '' - '') s \<longrightarrow>
        format_song (PStr s) = [song (strip s) (str ''Unknown Artist'')])"
  using json_path [of e prompt image_bytes n reply kvs cs ss]
    format_song_one [of t a] format_song_more [of t a others] format_song_plain [of s]
  by blast

lemma lines_text_braces:
  "strip lines_text = lines_text"
  "py_find lines_text 123 \<noteq> - 1"
  "py_rfind lines_text 125 + 1 \<noteq> 0"
  "py_slice lines_text (py_find lines_text 123) (py_rfind lines_text 125 + 1) = str ''{x}''"
  by (simp_all add: lines_text_def str_def strip_def isspace_def py_rfind_def
      py_slice_def slice_bound_def)

lemma extract_json_lines: "extract_json (loads lines_env) (strip lines_text) 1 = Inl JSONDecodeError"
  by (simp add: extract_json_def Let_def lines_text_braces lines_env_def reply_env_simps
      bind_exn_def)

lemma lines_split:
  "py_split lines_text (str ''\<newline>'') =
     [str ''Captions:'', str ''Sunny day at the beach'', str ''Songs:'',
      str ''Yellow by Coldplay'', str ''{x}'']"
  by (simp add: lines_text_def str_eval)

lemma lines_scan:
  "scan_line 1 \<lparr>caps = [], sngs = [], current_section = NoSection\<rparr> (str ''Captions:'')
     = Inr \<lparr>caps = [], sngs = [], current_section = CaptionsSection\<rparr>"
  "scan_line 1 \<lparr>caps = [], sngs = [], current_section = CaptionsSection\<rparr>
       (str ''Sunny day at the beach'')
     = Inr \<lparr>caps = [PStr (str ''Sunny day at the beach'')], sngs = [],
            current_section = CaptionsSection\<rparr>"
  "scan_line 1 \<lparr>caps = [PStr (str ''Sunny day at the beach'')], sngs = [],
            current_section = CaptionsSection\<rparr> (str ''Songs:'')
     = Inr \<lparr>caps = [PStr (str ''Sunny day at the beach'')], sngs = [],
            current_section = SongsSection\<rparr>"
  "scan_line 1 \<lparr>caps = [PStr (str ''Sunny day at the beach'')], sngs = [],
            current_section = SongsSection\<rparr> (str ''Yellow by Coldplay'')
     = Inr \<lparr>caps = [PStr (str ''Sunny day at the beach'')],
            sngs = [song (str ''Yellow'') (str ''Coldplay'')],
            current_section = SongsSection\<rparr>"
  "scan_line 1 \<lparr>caps = [PStr (str ''Sunny day at the beach'')],
            sngs = [song (str ''Yellow'') (str ''Coldplay'')],
            current_section = SongsSection\<rparr> (str ''{x}'')
     = Inr \<lparr>caps = [PStr (str ''Sunny day at the beach'')],
            sngs = [song (str ''Yellow'') (str ''Coldplay'')],
            current_section = SongsSection\<rparr>"
  by (simp_all add: scan_line_def str_eval split_song_def bind_exn_def py_index_def)

lemma parse_lines:
  "parse_gemini_response lines_text 1 =
     Inr \<lparr>captions = PList [PStr (str ''Sunny day at the beach'')],
          songs = [song (str ''Yellow'') (str ''Coldplay'')]\<rparr>"
  by (simp add: parse_gemini_response_def lines_split lines_scan bind_exn_def
      py_slice_def slice_bound_def)

lemma call_gemini_lines:
  "call_gemini lines_env prompt tiny_png 1 =
     Inr \<lparr>captions = PList [PStr (str ''Sunny day at the beach'')],
          songs = [song (str ''Yellow'') (str ''Coldplay'')]\<rparr>"
proof -
  have "call_model lines_env prompt tiny_png 1 = parse_gemini_response (strip lines_text) 1"
    using extract_json_lines
    by (simp add: call_model_def bind_exn_def lines_env_def reply_env_simps)
  then show ?thesis
    by (simp add: call_gemini_def lines_env_def reply_env_simps key_not_empty
        lines_text_braces parse_lines)
qed

lemma mock_1: "get_mock_response [] 1 =
    \<lparr>captions = PList [PStr (base_captions ! 0)], songs = [hollywood_songs ! 0]\<rparr>"
  by (rule result_eqI) (simp_all add: captions_mock songs_mock seed_Nil base_songs_Nil)

lemma sunny_not_mock: "str ''Sunny day at the beach'' \<notin> set base_captions"
  by (simp add: base_captions_def str_def)

lemma lines_not_mock:
  "call_gemini lines_env prompt tiny_png 1 \<noteq> Inr (get_mock_response prompt 1)"
proof
  assume "call_gemini lines_env prompt tiny_png 1 = Inr (get_mock_response prompt 1)"
  then have "get_mock_response prompt 1 =
      \<lparr>captions = PList [PStr (str ''Sunny day at the beach'')],
       songs = [song (str ''Yellow'') (str ''Coldplay'')]\<rparr>"
    by (simp add: call_gemini_lines)
  then have "captions (get_mock_response prompt 1) =
      PList [PStr (str ''Sunny day at the beach'')]"
    by simp
  then have "base_captions ! (seed prompt mod 7) = str ''Sunny day at the beach''"
    by (simp add: captions_mock)
  moreover have "base_captions ! (seed prompt mod 7) \<in> set base_captions"
    by (rule nth_mem) (simp add: length_base_captions)
  ultimately show False using sunny_not_mock by simp
qed

lemma generate_lines:
  "generate lines_env (png_request (str ''1'')) =
     Ok (PList [PStr (str ''Sunny day at the beach'')])
        (PList [song (str ''Yellow'') (str ''Coldplay'')])"
proof -
  have num: "read_num lines_env (Some (str ''1'')) = 1"
    by (simp add: read_num_def form_get_def lines_env_def reply_env_simps int_ascii_digits)
  have ext: "str ''.png'' \<in> set UPLOAD_EXTENSIONS"
    by (simp add: UPLOAD_EXTENSIONS_def)
  show ?thesis
    using ext
    by (simp add: generate_def png_request_def num Let_def call_gemini_lines
        py_slice_def slice_bound_def)
qed

text \<open>
  C4, as stated: every exception raised during the external call or the parsing of the
  response is redirected to the mock generator. Here a request uploads the PNG file
  \<open>tiny_png\<close> and asks for one caption and one song, and the model answers with headed
  lines and the piece \<open>{x}\<close>. \<open>json.loads\<close> raises a \<open>JSONDecodeError\<close> on that
  piece, and the adapter returns the caption and the song of the lines of the response,
  which is not the mock generator's result for the prompt; the route passes them on.
\<close>

theorem call_gemini_decode_error_counterexample:
  "upstream lines_env (default_prompt 1) tiny_png 1 = Inr lines_text
   \<and> loads lines_env (str ''{x}'') = Inl JSONDecodeError
   \<and> extract_json (loads lines_env) (strip lines_text) 1 = Inl JSONDecodeError
   \<and> call_gemini lines_env (default_prompt 1) tiny_png 1 =
       Inr \<lparr>captions = PList [PStr (str ''Sunny day at the beach'')],
            songs = [song (str ''Yellow'') (str ''Coldplay'')]\<rparr>
   \<and> call_gemini lines_env (default_prompt 1) tiny_png 1 \<noteq>
       Inr (get_mock_response (default_prompt 1) 1)
   \<and> generate lines_env (png_request (str ''1'')) =
       Ok (PList [PStr (str ''Sunny day at the beach'')])
          (PList [song (str ''Yellow'') (str ''Coldplay'')])"
proof -
  have up: "upstream lines_env (default_prompt 1) tiny_png 1 = Inr lines_text"
    by (simp add: lines_env_def reply_env_simps)
  have raised: "loads lines_env (str ''{x}'') = Inl JSONDecodeError"
    by (simp add: lines_env_def reply_env_simps)
  from up raised extract_json_lines call_gemini_lines [of "default_prompt 1"]
    lines_not_mock [of "default_prompt 1"] generate_lines
  show ?thesis by (intro conjI)
qed

lemma set_py_remove: "set (py_remove old s) \<subseteq> set s"
proof (induction old s rule: py_remove.induct)
  case (1 old)
  show ?case by simp
next
  case (2 old c cs)
  show ?case
  proof (cases "old \<noteq> [] \<and> prefix old (c # cs)")
    case True
    with 2(1) have "set (py_remove old (drop (length old) (c # cs))) \<subseteq> set (drop (length old) (c # cs))"
      by simp
    also have "\<dots> \<subseteq> set (c # cs)" by (rule set_drop_subset)
    finally show ?thesis using True by simp
  next
    case False
    with 2(2) show ?thesis by auto
  qed
qed

lemma remove_dash: "45 \<notin> set (py_remove (str ''-'') s)"
  by (induction s) (simp_all add: str_def)

lemma set_strip: "set (strip s) \<subseteq> set s"
  unfolding strip_def
  by (metis set_rev subsetI set_dropWhileD)

lemma py_in_set: "py_in sub s \<Longrightarrow> set sub \<subseteq> set s"
  by (auto simp: py_in_iff)

lemma cleanup_no_dash: "\<not> py_in (str '' - '') (cleanup line)"
proof
  assume "py_in (str '' - '') (cleanup line)"
  then have "set (str '' - '') \<subseteq> set (cleanup line)" by (rule py_in_set)
  moreover have "45 \<in> set (str '' - '')" by (simp add: str_def)
  ultimately have "45 \<in> set (cleanup line)" by blast
  then have "45 \<in> set (py_remove (str ''-'') (py_remove (str ''*'') line))"
    unfolding cleanup_def using set_strip set_py_remove by blast
  then show False using remove_dash by blast
qed

lemma dash_split:
  "py_split (str ''Songs:\<newline>Title - Artist'') (str ''\<newline>'') =
     [str ''Songs:'', str ''Title - Artist'']"
  by (simp add: str_eval)

lemma dash_scan:
  "scan_line 1 \<lparr>caps = [], sngs = [], current_section = NoSection\<rparr> (str ''Songs:'')
     = Inr \<lparr>caps = [], sngs = [], current_section = SongsSection\<rparr>"
  "scan_line 1 \<lparr>caps = [], sngs = [], current_section = SongsSection\<rparr>
       (str ''Title - Artist'')
     = Inr \<lparr>caps = [], sngs = [song (str ''Title  Artist'') (str ''Unknown Artist'')],
            current_section = SongsSection\<rparr>"
  by (simp_all add: scan_line_def str_eval)

text \<open>
  C2. The claim: in songs mode of line-based recovery a cleaned line with \<open>" by "\<close> is
  split there, else a cleaned line with \<open>" - "\<close> is split there, else a cleaned line of
  more than three characters is the title with the artist "Unknown Artist"; the line
  "Title - Artist" gives the title "Title" and the artist "Artist". Here the line
  "Title - Artist" under the heading "Songs:" gives the title "Title  Artist" and the
  artist "Unknown Artist": the cleanup has dropped the dash before the line is tested.
\<close>

theorem parse_gemini_response_dash_line:
  "cleanup (str ''Title - Artist'') = str ''Title  Artist''
   \<and> parse_gemini_response (str ''Songs:\<newline>Title - Artist'') 1 =
       Inr \<lparr>captions = PList [PStr (base_captions ! 0)],
            songs = [song (str ''Title  Artist'') (str ''Unknown Artist'')]\<rparr>"
proof -
  have "cleanup (str ''Title - Artist'') = str ''Title  Artist''"
    by (simp add: str_eval)
  moreover have "parse_gemini_response (str ''Songs:\<newline>Title - Artist'') 1 =
       Inr \<lparr>captions = PList [PStr (base_captions ! 0)],
            songs = [song (str ''Title  Artist'') (str ''Unknown Artist'')]\<rparr>"
    by (simp add: parse_gemini_response_def dash_split dash_scan mock_1 bind_exn_def
        pad.simps py_index_def py_slice_def slice_bound_def)
  ultimately show ?thesis by blast
qed

section \<open>The theorems at concrete inputs\<close>

theorem get_mock_response_region_witness:
  "py_in (str ''bollywood'') (lower (str ''Best BOLLYWOOD hits''))
   \<and> set (songs (get_mock_response (str ''Best BOLLYWOOD hits'') 3)) \<subseteq> set bollywood_songs
   \<and> \<not> py_in (str ''bollywood'') (lower (str ''Tollywood beats''))
   \<and> py_in (str ''tollywood'') (lower (str ''Tollywood beats''))
   \<and> set (songs (get_mock_response (str ''Tollywood beats'') 3)) \<subseteq> set tollywood_songs
   \<and> py_in (str ''k-pop'') (lower (str ''K-Pop night''))
   \<and> set (songs (get_mock_response (str ''K-Pop night'') 3)) \<subseteq> set kpop_songs
   \<and> set (songs (get_mock_response (str ''sunset at sea'') 3)) \<subseteq> set hollywood_songs
   \<and> lower (str ''BollyWood'') = str ''bollywood''
   \<and> set (songs (get_mock_response (str ''I love '' @ str ''BollyWood'' @ str '' songs'') 3))
       \<subseteq> set bollywood_songs
   \<and> py_in (str ''kpop'') (lower (8490 # str ''pop''))
   \<and> set (songs (get_mock_response (8490 # str ''pop'') 3)) \<subseteq> set kpop_songs"
proof -
  have kelvin: "\<not> py_in (str ''bollywood'') (lower (8490 # str ''pop''))"
    "\<not> py_in (str ''tollywood'') (lower (8490 # str ''pop''))"
    "py_in (str ''kpop'') (lower (8490 # str ''pop''))"
    by (simp_all add: str_def lower_def lower_cp_def)
  have 6: "set (songs (get_mock_response (8490 # str ''pop'') 3)) \<subseteq> set kpop_songs"
    using get_mock_response_region [of "8490 # str ''pop''" 3 "[]" "[]" "[]"] kelvin
    by simp
  have b: "py_in (str ''bollywood'') (lower (str ''Best BOLLYWOOD hits''))"
    by (simp add: str_def lower_def lower_cp_def)
  have t: "\<not> py_in (str ''bollywood'') (lower (str ''Tollywood beats''))"
    "py_in (str ''tollywood'') (lower (str ''Tollywood beats''))"
    by (simp_all add: str_def lower_def lower_cp_def)
  have k: "\<not> py_in (str ''bollywood'') (lower (str ''K-Pop night''))"
    "\<not> py_in (str ''tollywood'') (lower (str ''K-Pop night''))"
    "py_in (str ''k-pop'') (lower (str ''K-Pop night''))"
    by (simp_all add: str_def lower_def lower_cp_def)
  have h: "\<not> py_in (str ''bollywood'') (lower (str ''sunset at sea''))"
    "\<not> py_in (str ''tollywood'') (lower (str ''sunset at sea''))"
    "\<not> py_in (str ''kpop'') (lower (str ''sunset at sea''))"
    "\<not> py_in (str ''k-pop'') (lower (str ''sunset at sea''))"
    by (simp_all add: str_def lower_def lower_cp_def)
  have w: "lower (str ''BollyWood'') = str ''bollywood''"
    by (simp add: str_def lower_def lower_cp_def)
  have 1: "set (songs (get_mock_response (str ''Best BOLLYWOOD hits'') 3)) \<subseteq> set bollywood_songs"
    using get_mock_response_region [of "str ''Best BOLLYWOOD hits''" 3 "[]" "[]" "[]"] b
    by simp
  have 2: "set (songs (get_mock_response (str ''Tollywood beats'') 3)) \<subseteq> set tollywood_songs"
    using get_mock_response_region [of "str ''Tollywood beats''" 3 "[]" "[]" "[]"] t
    by simp
  have 3: "set (songs (get_mock_response (str ''K-Pop night'') 3)) \<subseteq> set kpop_songs"
    using get_mock_response_region [of "str ''K-Pop night''" 3 "[]" "[]" "[]"] k
    by simp
  have 4: "set (songs (get_mock_response (str ''sunset at sea'') 3)) \<subseteq> set hollywood_songs"
    using get_mock_response_region [of "str ''sunset at sea''" 3 "[]" "[]" "[]"] h
    by simp
  have 5: "set (songs (get_mock_response (str ''I love '' @ str ''BollyWood'' @ str '' songs'') 3))
       \<subseteq> set bollywood_songs"
    using get_mock_response_region [of "[]" 3 "str ''BollyWood''" "str ''I love ''"
        "str '' songs''"] w
    by simp
  from b t k(3) w 1 2 3 4 5 kelvin(3) 6 show ?thesis by (intro conjI)
qed

theorem songs_have_title_artist_witness:
  "call_gemini pair_env (default_prompt 2) tiny_png 2 =
     Inr \<lparr>captions = PList [PStr (str ''Sunny day''), PStr (str ''Blue sky'')],
          songs = [song (str ''Yellow'') (str ''Coldplay''),
                   song (str ''Imagine'') (str ''Unknown Artist'')]\<rparr>
   \<and> list_all has_title_artist
        [song (str ''Yellow'') (str ''Coldplay''), song (str ''Imagine'') (str ''Unknown Artist'')]
   \<and> parse_gemini_response lines_text 1 =
       Inr \<lparr>captions = PList [PStr (str ''Sunny day at the beach'')],
            songs = [song (str ''Yellow'') (str ''Coldplay'')]\<rparr>
   \<and> list_all has_title_artist [song (str ''Yellow'') (str ''Coldplay'')]"
proof -
  have 1: "list_all has_title_artist
        [song (str ''Yellow'') (str ''Coldplay''), song (str ''Imagine'') (str ''Unknown Artist'')]"
    using songs_have_title_artist [of "default_prompt 2" 2 lines_text pair_env tiny_png]
    by (simp add: call_gemini_pair)
  have 2: "list_all has_title_artist [song (str ''Yellow'') (str ''Coldplay'')]"
    using songs_have_title_artist [of "[]" 1 lines_text pair_env "[]"]
    by (simp add: parse_lines)
  from 1 2 call_gemini_pair [of "default_prompt 2"] parse_lines show ?thesis by (intro conjI)
qed

theorem read_num_clamped_witness:
  "int_of short_env (str ''0'') = Inr 0 \<and> read_num short_env (Some (str ''0'')) = 1
   \<and> int_of short_env (str ''10'') = Inr 10 \<and> read_num short_env (Some (str ''10'')) = 6
   \<and> int_of short_env (str ''3'') = Inr 3 \<and> read_num short_env None = 3
   \<and> int_of short_env (str ''abc'') = Inl ValueError
   \<and> read_num short_env (Some (str ''abc'')) = 3"
proof -
  have i: "int_of short_env (str ''0'') = Inr 0" "int_of short_env (str ''10'') = Inr 10"
    "int_of short_env (str ''3'') = Inr 3" "int_of short_env (str ''abc'') = Inl ValueError"
    by (simp_all add: short_env_int int_ascii_digits)
  have 1: "read_num short_env (Some (str ''0'')) = 1"
    and 2: "read_num short_env (Some (str ''10'')) = 6"
    and 3: "read_num short_env None = 3"
    and 4: "read_num short_env (Some (str ''abc'')) = 3"
    using read_num_clamped [of short_env None "str ''abc''" 0 ValueError] i
    by simp_all
  from i 1 2 3 4 show ?thesis by (intro conjI)
qed

lemma odd_json_braces:
  "strip odd_json = odd_json"
  "py_find odd_json 123 \<noteq> - 1"
  "py_rfind odd_json 125 + 1 \<noteq> 0"
  "py_slice odd_json (py_find odd_json 123) (py_rfind odd_json 125 + 1) = odd_json"
  by (simp_all add: odd_json_def str_def strip_def isspace_def py_rfind_def
      py_slice_def slice_bound_def)

lemma extract_json_odd: "extract_json (loads odd_env) (strip odd_json) 1 = Inl TypeError"
  by (simp add: extract_json_def Let_def odd_json_braces odd_env_def reply_env_simps
      bind_exn_def json_keys)

theorem call_gemini_never_raises_witness:
  "call_gemini (lines_env\<lparr>GEMINI_API_KEY := None\<rparr>) (default_prompt 1) tiny_png 1 =
       Inr (get_mock_response (default_prompt 1) 1)
   \<and> upstream lines_env (default_prompt 1) [] 1 = Inl OtherError
   \<and> call_gemini lines_env (default_prompt 1) [] 1 =
       Inr (get_mock_response (default_prompt 1) 1)
   \<and> upstream odd_env (default_prompt 1) tiny_png 1 = Inr odd_json
   \<and> extract_json (loads odd_env) (strip odd_json) 1 = Inl TypeError
   \<and> call_gemini odd_env (default_prompt 1) tiny_png 1 =
       Inr (get_mock_response (default_prompt 1) 1)
   \<and> upstream lines_env (default_prompt 1) tiny_png 1 = Inr lines_text
   \<and> extract_json (loads lines_env) (strip lines_text) 1 = Inl JSONDecodeError
   \<and> call_gemini lines_env (default_prompt 1) tiny_png 1 =
       parse_gemini_response (strip lines_text) 1
   \<and> (\<exists>r. call_gemini lines_env (default_prompt 1) tiny_png 1 = Inr r)"
proof -
  have 1: "call_gemini (lines_env\<lparr>GEMINI_API_KEY := None\<rparr>) (default_prompt 1) tiny_png 1 =
      Inr (get_mock_response (default_prompt 1) 1)"
    using call_gemini_never_raises
      [of "lines_env\<lparr>GEMINI_API_KEY := None\<rparr>" "default_prompt 1" tiny_png 1]
    by simp
  have up_bad: "upstream lines_env (default_prompt 1) [] 1 = Inl OtherError"
    by (simp add: lines_env_def reply_env_simps)
  have 2: "call_gemini lines_env (default_prompt 1) [] 1 =
       Inr (get_mock_response (default_prompt 1) 1)"
    using call_gemini_never_raises [of lines_env "default_prompt 1" "[]" 1] up_bad
    by simp
  have up_odd: "upstream odd_env (default_prompt 1) tiny_png 1 = Inr odd_json"
    by (simp add: odd_env_def reply_env_simps)
  have 3: "call_gemini odd_env (default_prompt 1) tiny_png 1 =
      Inr (get_mock_response (default_prompt 1) 1)"
    using call_gemini_never_raises [of odd_env "default_prompt 1" tiny_png 1] up_odd
      extract_json_odd
    by simp
  have up_lines: "upstream lines_env (default_prompt 1) tiny_png 1 = Inr lines_text"
    by (simp add: lines_env_def reply_env_simps)
  have key: "GEMINI_API_KEY lines_env \<noteq> None" "GEMINI_API_KEY lines_env \<noteq> Some []"
    by (simp_all add: lines_env_def reply_env_simps key_not_empty)
  have 4: "call_gemini lines_env (default_prompt 1) tiny_png 1 =
      parse_gemini_response (strip lines_text) 1"
    using call_gemini_never_raises [of lines_env "default_prompt 1" tiny_png 1] up_lines key
      extract_json_lines
    by simp
  have 5: "\<exists>r. call_gemini lines_env (default_prompt 1) tiny_png 1 = Inr r"
    using call_gemini_never_raises [of lines_env "default_prompt 1" tiny_png 1]
    by (rule conjunct1)
  from 1 up_bad 2 up_odd extract_json_odd 3 up_lines extract_json_lines 4 5 show ?thesis
    by (intro conjI)
qed

theorem json_songs_split_witness:
  "call_gemini pair_env (default_prompt 2) tiny_png 2 =
     Inr \<lparr>captions = PList (py_slice [PStr (str ''Sunny day''), PStr (str ''Blue sky'')] 0 2),
          songs = concat (map format_song
            (py_slice [PStr (str ''Yellow - Coldplay''), PStr (str ''Imagine'')] 0 2))\<rparr>
   \<and> format_song (PStr (str ''Yellow'' @ str '' - '' @ str ''Coldplay'')) =
       [song (strip (str ''Yellow'')) (strip (str ''Coldplay''))]
   \<and> format_song (PStr (str ''Yellow'' @ str '' - '' @ str ''Coldplay'' @ str '' - '' @ str ''Live'')) =
       [song (strip (str ''Yellow'')) (strip (str ''Coldplay''))]
   \<and> format_song (PStr (str ''Imagine'')) =
       [song (strip (str ''Imagine'')) (str ''Unknown Artist'')]"
proof -
  note inst = json_songs_split [of pair_env "default_prompt 2" tiny_png 2 pair_text
      "[(str ''captions'', PList [PStr (str ''Sunny day''), PStr (str ''Blue sky'')]),
        (str ''songs'', PList [PStr (str ''Yellow - Coldplay''), PStr (str ''Imagine'')])]"
      "[PStr (str ''Sunny day''), PStr (str ''Blue sky'')]"
      "[PStr (str ''Yellow - Coldplay''), PStr (str ''Imagine'')]"
      "str ''Yellow''" "str ''Coldplay''" "str ''Live''" "str ''Imagine''"]
  have key: "GEMINI_API_KEY pair_env \<noteq> None" "GEMINI_API_KEY pair_env \<noteq> Some []"
    by (simp_all add: pair_env_def reply_env_simps key_not_empty)
  have up: "upstream pair_env (default_prompt 2) tiny_png 2 = Inr pair_text"
    by (simp add: pair_env_def reply_env_simps)
  have ld: "loads pair_env pair_json =
      Inr (PDict [(str ''captions'', PList [PStr (str ''Sunny day''), PStr (str ''Blue sky'')]),
        (str ''songs'', PList [PStr (str ''Yellow - Coldplay''), PStr (str ''Imagine'')])])"
    by (simp add: pair_env_def reply_env_simps)
  have no: "\<not> py_in (str '' - '') (str ''Yellow'' @ str '' -'')"
    "\<not> py_in (str '' - '') (str ''Coldplay'')"
    "\<not> py_in (str '' - '') (str ''Coldplay'' @ str '' -'')"
    "\<not> py_in (str '' - '') (str ''Imagine'')"
    by (simp_all add: str_def)
  have 1: "call_gemini pair_env (default_prompt 2) tiny_png 2 =
     Inr \<lparr>captions = PList (py_slice [PStr (str ''Sunny day''), PStr (str ''Blue sky'')] 0 2),
          songs = concat (map format_song
            (py_slice [PStr (str ''Yellow - Coldplay''), PStr (str ''Imagine'')] 0 2))\<rparr>"
    using inst [THEN conjunct1] key up ld
    by (simp add: pair_text_braces json_keys)
  have 2: "format_song (PStr (str ''Yellow'' @ str '' - '' @ str ''Coldplay'')) =
       [song (strip (str ''Yellow'')) (strip (str ''Coldplay''))]"
    using inst [THEN conjunct2, THEN conjunct1] no by (rule_tac mp) simp_all
  have 3: "format_song (PStr (str ''Yellow'' @ str '' - '' @ str ''Coldplay'' @ str '' - '' @ str ''Live'')) =
       [song (strip (str ''Yellow'')) (strip (str ''Coldplay''))]"
    using inst [THEN conjunct2, THEN conjunct2, THEN conjunct1] no by (rule_tac mp) simp_all
  have 4: "format_song (PStr (str ''Imagine'')) =
       [song (strip (str ''Imagine'')) (str ''Unknown Artist'')]"
    using inst [THEN conjunct2, THEN conjunct2, THEN conjunct2] no by (rule_tac mp) simp_all
  from 1 2 3 4 show ?thesis by (intro conjI)
qed

end
